theory Spec2Isabelle
  imports Complex_Main "HOL-Library.Sublist"
begin

section \<open>Exceptions\<close>

text \<open>
  A finding of a validation report: its code, its message and the path of the node it
  is about.
\<close>

datatype finding = Finding (fcode: string) (fmessage: string) (fpath: "string list")

text \<open>
  The validators signal a failed check by throwing. \<open>Failed code msg\<close> is the error built
  by the helper \<open>s\<close> of the validators module (an \<open>Error\<close> with a \<open>code\<close> and
  \<open>failedValidation = true\<close>); \<open>Err msg\<close> is a plain \<open>new Error(msg)\<close> and
  \<open>TypeError msg\<close> a \<open>new TypeError(msg)\<close>; \<open>Invalid msg errors warnings\<close> is the
  error built by the helper \<open>m\<close> of the specification module, an \<open>Error\<close> that carries
  the errors and warnings of a report; \<open>TypeErr\<close> and \<open>SyntaxErr\<close> are the exceptions
  the JavaScript runtime itself raises (a property read on \<open>null\<close>, a call of something
  that is not a function, an ill-formed regular expression).
\<close>

datatype exn =
    Err string
  | TypeError string
  | Failed string string
  | TypeErr
  | SyntaxErr
  | Invalid string "finding list" "finding list"

fun code :: "exn \<Rightarrow> string option" where
  "code (Failed c m) = Some c"
| "code _ = None"

section \<open>Small library functions\<close>

text \<open>\<open>Array.prototype.join\<close> on an array of strings.\<close>

fun join :: "string \<Rightarrow> string list \<Rightarrow> string" where
  "join sep [] = []"
| "join sep [x] = x"
| "join sep (x # y # ys) = x @ sep @ join sep (y # ys)"

text \<open>
  \<open>_.uniq\<close>: the elements in order of first occurrence. \<open>_.union\<close> flattens the
  arrays among its arguments (an argument that is not an array is skipped) and takes
  \<open>_.uniq\<close> of the result.
\<close>

definition uniq :: "'a list \<Rightarrow> 'a list" where
  "uniq xs = foldl (\<lambda>acc x. if x \<in> set acc then acc else acc @ [x]) [] xs"

definition union2 :: "'a list option \<Rightarrow> 'a list option \<Rightarrow> 'a list" where
  "union2 a b = uniq ((case a of None \<Rightarrow> [] | Some xs \<Rightarrow> xs) @ (case b of None \<Rightarrow> [] | Some ys \<Rightarrow> ys))"

text \<open>\<open>str.split(sep)[0]\<close> for a one-character separator: the text before its first occurrence.\<close>

definition split_first :: "char \<Rightarrow> string \<Rightarrow> string" where
  "split_first sep str = takeWhile (\<lambda>c. c \<noteq> sep) str"

section \<open>Content-type gate\<close>

text \<open>
  \<open>validateContentType(gConsumes, oConsumes, req)\<close> of the validators module. The request
  carries its headers (a dictionary) and its method (the field \<open>method\<close>, here
  \<open>req_method\<close>). A header that is missing or the
  empty string is falsy, so \<open>||\<close> replaces it by the default.
\<close>

record request =
  headers :: "string \<rightharpoonup> string"
  req_method :: string

definition contentType :: "request \<Rightarrow> string" where
  "contentType req =
     split_first (CHR '';'')
       (case headers req ''content-type'' of
          None \<Rightarrow> ''application/octet-stream''
        | Some h \<Rightarrow> if h = [] then ''application/octet-stream'' else h)"

definition validateContentType ::
  "string list option \<Rightarrow> string list option \<Rightarrow> request \<Rightarrow> exn + unit" where
  "validateContentType gConsumes oConsumes req =
     (let a = contentType req;
          r = union2 oConsumes gConsumes
      in if length r > 0 \<and> req_method req \<in> set [''POST'', ''PUT''] \<and> a \<notin> set r
         then Inl (Err (''Invalid content type ('' @ a @ '').  These are valid: '' @ join '', '' r))
         else Inr ())"

text \<open>The set of media types an optional \<open>consumes\<close> array declares.\<close>

definition declared :: "string list option \<Rightarrow> string set" where
  "declared a = (case a of None \<Rightarrow> {} | Some xs \<Rightarrow> set xs)"

section \<open>JavaScript values\<close>

text \<open>
  The values the validators receive: request data (strings, arrays of strings) and parsed
  JSON. A number is \<open>NaN\<close>, one of the two infinities, or an exact rational: the
  rounding of IEEE doubles and the sign of zero are not modelled. A number prints as
  \<open>Number.prototype.toString\<close> prints it (\<open>show_num\<close>): in plain decimal notation when
  it has at most 21 digits before the point and fewer than six zeros right after it, and
  in exponent notation otherwise; at most 20 digits are printed after the point.
  Strings are lists of characters with codes 0 to 255. The white space that \<open>parseInt\<close>,
  \<open>parseFloat\<close> and \<open>ToNumber\<close> skip is, among these, the characters 9 to 13, the space
  and the no-break space (160).
\<close>

datatype jsnum = NaN | NegInf | Fin rat | PosInf

datatype jsval =
    JUndefined
  | JNull
  | JBool bool
  | JNum jsnum
  | JStr string
  | JArr "jsval list"
  | JObj "(string \<times> jsval) list"

definition is_digit :: "char \<Rightarrow> bool" where
  "is_digit c = (c \<in> set ''0123456789'')"

definition is_space :: "char \<Rightarrow> bool" where
  "is_space c = ((of_char c :: nat) \<in> {9, 10, 11, 12, 13, 32, 160})"

definition digit_val :: "char \<Rightarrow> nat" where
  "digit_val c = of_char c - 48"

definition digits_val :: "string \<Rightarrow> nat" where
  "digits_val ds = foldl (\<lambda>a c. 10 * a + digit_val c) 0 ds"

fun show_nat :: "nat \<Rightarrow> string" where
  "show_nat n = (if n < 10 then [char_of (48 + n)] else show_nat (n div 10) @ [char_of (48 + n mod 10)])"

declare show_nat.simps [simp del]

fun fraction_digits :: "nat \<Rightarrow> rat \<Rightarrow> string" where
  "fraction_digits 0 r = []"
| "fraction_digits (Suc k) r =
     (if r = 0 then []
      else char_of (48 + nat \<lfloor>10 * r\<rfloor>) # fraction_digits k (10 * r - of_int \<lfloor>10 * r\<rfloor>))"

text \<open>
  \<open>leading_zeros p\<close> counts the zeros between the point and the first digit of a number
  between 0 and 1. \<open>mantissa\<close> writes a run of digits, the zeros at its end dropped, with
  a point after the first digit, and \<open>exponent_part\<close> the exponent with its sign.
\<close>

definition leading_zeros :: "rat \<Rightarrow> nat" where
  "leading_zeros p =
     (case find (\<lambda>j. 1 \<le> 10 ^ Suc j * p) [0..<nat (snd (quotient_of p))] of
        None \<Rightarrow> 0 | Some j \<Rightarrow> j)"

definition mantissa :: "string \<Rightarrow> string" where
  "mantissa ds =
     (case rev (dropWhile (\<lambda>c. c = CHR ''0'') (rev ds)) of
        [] \<Rightarrow> ''0''
      | d # r \<Rightarrow> if r = [] then [d] else d # CHR ''.'' # r)"

definition exponent_part :: "int \<Rightarrow> string" where
  "exponent_part x = CHR ''e'' # (if x < 0 then ''-'' else ''+'') @ show_nat (nat \<bar>x\<bar>)"

definition show_rat :: "rat \<Rightarrow> string" where
  "show_rat q =
     (let p = \<bar>q\<bar>; whole = \<lfloor>p\<rfloor>; r = p - of_int whole; ip = show_nat (nat whole)
      in (if q < 0 then ''-'' else [])
         @ (if 21 < length ip
            then mantissa (ip @ fraction_digits 20 r) @ exponent_part (int (length ip) - 1)
            else if 0 < p \<and> p < 1 \<and> 6 \<le> leading_zeros p
            then mantissa (fraction_digits 20 (p * 10 ^ leading_zeros p))
                 @ exponent_part (- int (leading_zeros p) - 1)
            else ip @ (if r = 0 then [] else CHR ''.'' # fraction_digits 20 r)))"

fun show_num :: "jsnum \<Rightarrow> string" where
  "show_num NaN = ''NaN''"
| "show_num NegInf = ''-Infinity''"
| "show_num PosInf = ''Infinity''"
| "show_num (Fin q) = show_rat q"

text \<open>
  \<open>ToString\<close>: what string concatenation, \<open>parseInt\<close> and \<open>parseFloat\<close> apply to
  their argument first. An array prints its elements separated by commas, \<open>null\<close> and
  \<open>undefined\<close> elements as the empty string.
\<close>

fun toStr :: "jsval \<Rightarrow> string" where
  "toStr JUndefined = ''undefined''"
| "toStr JNull = ''null''"
| "toStr (JBool b) = (if b then ''true'' else ''false'')"
| "toStr (JNum x) = show_num x"
| "toStr (JStr s) = s"
| "toStr (JArr xs) = join '','' (map (\<lambda>x. if x = JUndefined \<or> x = JNull then [] else toStr x) xs)"
| "toStr (JObj kvs) = ''[object Object]''"

text \<open>
  \<open>parseInt(e, 10)\<close>: leading white space is skipped, a sign is read, and the longest
  run of decimal digits that follows is the value; without a digit the result is
  \<open>NaN\<close>. Whatever follows the digits is ignored.
\<close>

definition strip_sign :: "string \<Rightarrow> bool \<times> string" where
  "strip_sign t = (case t of [] \<Rightarrow> (False, [])
     | c # r \<Rightarrow> if c = CHR ''-'' then (True, r) else if c = CHR ''+'' then (False, r) else (False, t))"

definition signed :: "bool \<Rightarrow> rat \<Rightarrow> rat" where
  "signed neg q = (if neg then - q else q)"

definition parseInt_str :: "string \<Rightarrow> jsnum" where
  "parseInt_str s =
     (let (neg, u) = strip_sign (dropWhile is_space s);
          ds = takeWhile is_digit u
      in if ds = [] then NaN else Fin (signed neg (of_nat (digits_val ds))))"

definition parseInt :: "jsval \<Rightarrow> jsnum" where
  "parseInt e = parseInt_str (toStr e)"

text \<open>
  \<open>parseFloat(e)\<close>: leading white space is skipped and the longest prefix that is a
  decimal literal (a sign, then \<open>Infinity\<close> or digits with an optional fraction and
  exponent) is the value; without such a prefix the result is \<open>NaN\<close>.
  \<open>scan_decimal\<close> returns the value of the literal and the text left after it.
\<close>

definition parseFloat_exponent :: "string \<Rightarrow> int \<times> string" where
  "parseFloat_exponent r =
     (case r of [] \<Rightarrow> (0, r)
      | c # r' \<Rightarrow>
          if c = CHR ''e'' \<or> c = CHR ''E''
          then (let (neg, u) = strip_sign r'; ds = takeWhile is_digit u
                in if ds = [] then (0, r)
                   else ((if neg then - int (digits_val ds) else int (digits_val ds)), dropWhile is_digit u))
          else (0, r))"

definition pow10 :: "int \<Rightarrow> rat" where
  "pow10 k = (if 0 \<le> k then 10 ^ nat k else 1 / 10 ^ nat (- k))"

definition scan_decimal :: "string \<Rightarrow> (jsnum \<times> string) option" where
  "scan_decimal t =
     (let (neg, u) = strip_sign t
      in if take 8 u = ''Infinity'' then Some (if neg then NegInf else PosInf, drop 8 u)
         else
           (let ip = takeWhile is_digit u;
                r1 = dropWhile is_digit u;
                (fp, r2) = (case r1 of [] \<Rightarrow> ([], r1)
                            | c # r \<Rightarrow> if c = CHR ''.'' then (takeWhile is_digit r, dropWhile is_digit r)
                                       else ([], r1))
            in if ip = [] \<and> fp = [] then None
               else
                 (let (ex, r3) = parseFloat_exponent r2;
                      m = of_nat (digits_val ip) + of_nat (digits_val fp) / 10 ^ length fp
                  in Some (Fin (signed neg (m * pow10 ex)), r3))))"

definition parseFloat_str :: "string \<Rightarrow> jsnum" where
  "parseFloat_str s =
     (case scan_decimal (dropWhile is_space s) of None \<Rightarrow> NaN | Some (v, rest) \<Rightarrow> v)"

definition parseFloat :: "jsval \<Rightarrow> jsnum" where
  "parseFloat e = parseFloat_str (toStr e)"

text \<open>
  \<open>ToNumber\<close>, which the remainder operator applies to its operands. On a string the
  whole text, white space trimmed at both ends, has to be a decimal or hexadecimal literal;
  the empty string is 0.
\<close>

definition hex_val :: "char \<Rightarrow> nat option" where
  "hex_val c =
     (if is_digit c then Some (digit_val c)
      else if c \<in> set ''abcdef'' then Some (of_char c - 87)
      else if c \<in> set ''ABCDEF'' then Some (of_char c - 55)
      else None)"

definition str_to_number :: "string \<Rightarrow> jsnum" where
  "str_to_number s =
     (let t = rev (dropWhile is_space (rev (dropWhile is_space s)))
      in if t = [] then Fin 0
         else if take 2 t = ''0x'' \<or> take 2 t = ''0X''
         then (if drop 2 t \<noteq> [] \<and> list_all (\<lambda>c. hex_val c \<noteq> None) (drop 2 t)
               then Fin (of_nat (foldl (\<lambda>a c. 16 * a + the (hex_val c)) 0 (drop 2 t)))
               else NaN)
         else (case scan_decimal t of Some (v, []) \<Rightarrow> v | _ \<Rightarrow> NaN))"

fun toNumber :: "jsval \<Rightarrow> jsnum" where
  "toNumber JUndefined = NaN"
| "toNumber JNull = Fin 0"
| "toNumber (JBool b) = (if b then Fin 1 else Fin 0)"
| "toNumber (JNum x) = x"
| "toNumber (JStr s) = str_to_number s"
| "toNumber (JArr xs) = str_to_number (toStr (JArr xs))"
| "toNumber (JObj kvs) = NaN"

text \<open>
  The relational operators and \<open>%\<close> on numbers. A comparison with \<open>NaN\<close> is false;
  the remainder has the sign of the dividend and is \<open>NaN\<close> for a zero divisor.
\<close>

fun num_lt :: "jsnum \<Rightarrow> jsnum \<Rightarrow> bool" where
  "num_lt NaN y = False"
| "num_lt x NaN = False"
| "num_lt x NegInf = False"
| "num_lt NegInf y = True"
| "num_lt PosInf y = False"
| "num_lt (Fin a) PosInf = True"
| "num_lt (Fin a) (Fin b) = (a < b)"

definition num_gt :: "jsnum \<Rightarrow> jsnum \<Rightarrow> bool" where
  "num_gt x y = num_lt y x"

definition num_ge :: "jsnum \<Rightarrow> jsnum \<Rightarrow> bool" where
  "num_ge x y = (x \<noteq> NaN \<and> y \<noteq> NaN \<and> \<not> num_lt x y)"

definition trunc :: "rat \<Rightarrow> rat" where
  "trunc q = (if 0 \<le> q then of_int \<lfloor>q\<rfloor> else of_int \<lceil>q\<rceil>)"

fun num_mod :: "jsnum \<Rightarrow> jsnum \<Rightarrow> jsnum" where
  "num_mod (Fin a) (Fin b) = (if b = 0 then NaN else Fin (a - b * trunc (a / b)))"
| "num_mod (Fin a) NegInf = Fin a"
| "num_mod (Fin a) PosInf = Fin a"
| "num_mod x y = NaN"

text \<open>
  \<open>===\<close>, as \<open>indexOf\<close> and \<open>_.uniq\<close> use it: primitive values are compared by value
  (\<open>NaN\<close> differs from itself),
  arrays and objects by identity, and two arrays or objects met in the data are never
  the same object.
\<close>

fun strict_eq :: "jsval \<Rightarrow> jsval \<Rightarrow> bool" where
  "strict_eq (JNum NaN) y = False"
| "strict_eq (JArr xs) y = False"
| "strict_eq (JObj kvs) y = False"
| "strict_eq x y = (x = y)"

definition indexOf_found :: "jsval list \<Rightarrow> jsval \<Rightarrow> bool" where
  "indexOf_found xs e = list_ex (\<lambda>x. strict_eq x e) xs"

definition js_uniq :: "jsval list \<Rightarrow> jsval list" where
  "js_uniq xs = foldl (\<lambda>acc x. if list_ex (\<lambda>y. strict_eq y x) acc then acc else acc @ [x]) [] xs"

text \<open>
  The property read \<open>e.length\<close>: it throws on \<open>null\<close> and \<open>undefined\<close>, is the
  length of a string or an array, an object's own \<open>length\<close> member, and \<open>undefined\<close>
  on a boolean or a number.
\<close>

fun js_length :: "jsval \<Rightarrow> exn + jsval" where
  "js_length JUndefined = Inl TypeErr"
| "js_length JNull = Inl TypeErr"
| "js_length (JStr s) = Inr (JNum (Fin (of_nat (length s))))"
| "js_length (JArr xs) = Inr (JNum (Fin (of_nat (length xs))))"
| "js_length (JObj kvs) = Inr (case map_of kvs ''length'' of None \<Rightarrow> JUndefined | Some v \<Rightarrow> v)"
| "js_length v = Inr JUndefined"

section \<open>Date and date-time formats\<close>

text \<open>
  The two regular expressions of the validators module, written out:
  \<^verbatim>\<open>/^([0-9]{4})-([0-9]{2})-([0-9]{2})$/\<close> and
  \<^verbatim>\<open>/^([0-9]{2}):([0-9]{2}):([0-9]{2})(.[0-9]+)?(z|([+-][0-9]{2}:[0-9]{2}))$/\<close>.
  Each \<open>exec\<close> returns the first three groups. Strings are compared with \<open>>\<close> code
  unit by code unit (\<open>str_gt\<close>).
\<close>

fun str_gt :: "string \<Rightarrow> string \<Rightarrow> bool" where
  "str_gt [] ys = False"
| "str_gt (x # xs) [] = True"
| "str_gt (x # xs) (y # ys) = ((of_char y :: nat) < of_char x \<or> (x = y \<and> str_gt xs ys))"

definition dateRegExp_exec :: "string \<Rightarrow> (string \<times> string \<times> string) option" where
  "dateRegExp_exec str =
     (if length str = 10
         \<and> list_all is_digit (take 4 str) \<and> str ! 4 = CHR ''-''
         \<and> list_all is_digit (take 2 (drop 5 str)) \<and> str ! 7 = CHR ''-''
         \<and> list_all is_digit (drop 8 str)
      then Some (take 4 str, take 2 (drop 5 str), drop 8 str)
      else None)"

definition is_offset :: "string \<Rightarrow> bool" where
  "is_offset z =
     (z = ''z'' \<or>
      (length z = 6 \<and> (z ! 0 = CHR ''+'' \<or> z ! 0 = CHR ''-'')
       \<and> is_digit (z ! 1) \<and> is_digit (z ! 2) \<and> z ! 3 = CHR '':''
       \<and> is_digit (z ! 4) \<and> is_digit (z ! 5)))"

definition is_fraction :: "string \<Rightarrow> bool" where
  "is_fraction f =
     (case f of [] \<Rightarrow> False
      | c # ds \<Rightarrow> (of_char c :: nat) \<notin> {10, 13} \<and> ds \<noteq> [] \<and> list_all is_digit ds)"

definition timeRegExp_exec :: "string \<Rightarrow> (string \<times> string \<times> string) option" where
  "timeRegExp_exec str =
     (let tl8 = drop 8 str
      in if 8 \<le> length str
            \<and> list_all is_digit (take 2 str) \<and> str ! 2 = CHR '':''
            \<and> list_all is_digit (take 2 (drop 3 str)) \<and> str ! 5 = CHR '':''
            \<and> list_all is_digit (take 2 (drop 6 str))
            \<and> (is_offset tl8
                \<or> (is_fraction (take (length tl8 - 1) tl8) \<and> is_offset (drop (length tl8 - 1) tl8))
                \<or> (is_fraction (take (length tl8 - 6) tl8) \<and> is_offset (drop (length tl8 - 6) tl8)))
         then Some (take 2 str, take 2 (drop 3 str), take 2 (drop 6 str))
         else None)"

text \<open>The method call \<open>e.toString()\<close>, which throws on \<open>null\<close> and \<open>undefined\<close>.\<close>

fun toString :: "jsval \<Rightarrow> exn + string" where
  "toString JUndefined = Inl TypeErr"
| "toString JNull = Inl TypeErr"
| "toString v = Inr (toStr v)"

text \<open>
  The functions \<open>r\<close> (date) and \<open>o\<close> (date-time) of the validators module. The
  date-time is lower-cased and split at every \<open>t\<close>; the first piece is the date and the
  second, when there is one, the time (\<open>exec(undefined)\<close> matches against the text
  \<open>undefined\<close>).
\<close>

definition isValidDate_str :: "string \<Rightarrow> bool" where
  "isValidDate_str e =
     (case dateRegExp_exec e of
        None \<Rightarrow> False
      | Some (year, month, day) \<Rightarrow>
          \<not> (str_gt ''01'' month \<or> str_gt month ''12'' \<or> str_gt ''01'' day \<or> str_gt day ''31''))"

definition isValidDate :: "jsval \<Rightarrow> exn + bool" where
  "isValidDate e = (case toString e of Inl x \<Rightarrow> Inl x | Inr str \<Rightarrow> Inr (isValidDate_str str))"

definition toLowerCase :: "string \<Rightarrow> string" where
  "toLowerCase str =
     map (\<lambda>c. if 65 \<le> (of_char c :: nat) \<and> (of_char c :: nat) \<le> 90 then char_of (of_char c + (32 :: nat)) else c) str"

fun split_on :: "char \<Rightarrow> string \<Rightarrow> string list" where
  "split_on sep [] = [[]]"
| "split_on sep (c # cs) =
     (if c = sep then [] # split_on sep cs
      else (case split_on sep cs of [] \<Rightarrow> [[c]] | p # ps \<Rightarrow> (c # p) # ps))"

definition isValidDateTime :: "jsval \<Rightarrow> exn + bool" where
  "isValidDateTime e =
     (case toString e of
        Inl x \<Rightarrow> Inl x
      | Inr str \<Rightarrow>
          (let parts = split_on (CHR ''t'') (toLowerCase str);
               date = hd parts;
               time = (if 1 < length parts then parts ! 1 else ''undefined'')
           in Inr (if isValidDate_str date
                   then (case timeRegExp_exec time of
                           None \<Rightarrow> False
                         | Some (hour, minute, second) \<Rightarrow>
                             \<not> (str_gt hour ''23'' \<or> str_gt minute ''59'' \<or> str_gt second ''59''))
                   else False)))"

section \<open>Constraint nodes\<close>

text \<open>
  A schema, parameter or property node of a document, with the members the validators
  read (the field \<open>n_type\<close> is the member \<open>type\<close>, and so on). Members carry the types
  the dialect's meta-schema gives them; an absent member is \<open>None\<close>, or \<open>JUndefined\<close>
  where the member is an arbitrary value. \<open>maximum\<close> and \<open>minimum\<close> are values because
  one dialect writes them as strings. Of \<open>items\<close> only \<open>type\<close> and \<open>format\<close> are read;
  \<open>i_other\<close> holds its other members. A node may wrap another one in its \<open>schema\<close>
  member.
\<close>

record item_spec =
  i_type :: "string option"
  i_format :: "string option"
  i_other :: "(string \<times> jsval) list"

record constraints =
  n_type :: "string option"
  n_format :: "string option"
  n_items :: "item_spec option"
  n_enum :: "jsval list option"
  n_maximum :: jsval
  n_exclusiveMaximum :: "bool option"
  n_maxItems :: "nat option"
  n_maxLength :: "nat option"
  n_maxProperties :: "nat option"
  n_minimum :: jsval
  n_exclusiveMinimum :: "bool option"
  n_minItems :: "nat option"
  n_minLength :: "nat option"
  n_minProperties :: "nat option"
  n_multipleOf :: jsval
  n_pattern :: "string option"
  n_uniqueItems :: "bool option"
  n_default :: jsval
  n_defaultValue :: jsval

datatype schema_node = Node constraints "schema_node option"

section \<open>The validators\<close>

text \<open>
  Each validator of the validators module returns normally (\<open>Inr\<close>) or throws
  (\<open>Inl\<close>). \<open>validatePattern\<close> takes the regular-expression engine as a parameter:
  \<open>RegExp p\<close> is \<open>None\<close> when \<open>new RegExp(p)\<close> throws a syntax error and otherwise
  the test whether the expression matches somewhere in a string.
\<close>

definition opt_str :: "string option \<Rightarrow> string" where
  "opt_str x = (case x of None \<Rightarrow> ''undefined'' | Some str \<Rightarrow> str)"

definition validateArrayType :: "constraints \<Rightarrow> exn + unit" where
  "validateArrayType e =
     (if n_type e = Some ''array'' \<and> n_items e = None
      then Inl (Failed ''OBJECT_MISSING_REQUIRED_PROPERTY'' ''Missing required property: items'')
      else Inr ())"

definition validateEnum :: "jsval \<Rightarrow> jsval list option \<Rightarrow> exn + unit" where
  "validateEnum e n =
     (case n of
        None \<Rightarrow> Inr ()
      | Some allowed \<Rightarrow>
          if e = JUndefined \<or> indexOf_found allowed e then Inr ()
          else Inl (Failed ''ENUM_MISMATCH''
                 (''Not an allowable value ('' @ join '', '' (map (\<lambda>x. if x = JUndefined \<or> x = JNull then [] else toStr x) allowed)
                  @ ''): '' @ toStr e)))"

definition validateMaximum :: "jsval \<Rightarrow> jsval \<Rightarrow> string option \<Rightarrow> bool option \<Rightarrow> exn + unit" where
  "validateMaximum e n i a =
     (let d = (if a = Some True then ''MAXIMUM_EXCLUSIVE'' else ''MAXIMUM'');
          v = (if i = Some ''integer'' then parseInt e
               else if i = Some ''number'' then parseFloat e
               else NaN)
      in if n = JUndefined then Inr ()
         else (let r = parseFloat n
               in if a = Some True \<and> num_ge v r
                  then Inl (Failed d (''Greater than or equal to the configured maximum ('' @ toStr n @ ''): '' @ toStr e))
                  else if num_gt v r
                  then Inl (Failed d (''Greater than the configured maximum ('' @ toStr n @ ''): '' @ toStr e))
                  else Inr ()))"

definition validateMaxItems :: "jsval \<Rightarrow> nat option \<Rightarrow> exn + unit" where
  "validateMaxItems e n =
     (case n of
        None \<Rightarrow> Inr ()
      | Some m \<Rightarrow>
          (case js_length e of
             Inl x \<Rightarrow> Inl x
           | Inr len \<Rightarrow>
               if num_gt (toNumber len) (Fin (of_nat m))
               then Inl (Failed ''ARRAY_LENGTH_LONG''
                      (''Array is too long ('' @ toStr len @ ''), maximum '' @ show_nat m))
               else Inr ()))"

definition validateMaxLength :: "jsval \<Rightarrow> nat option \<Rightarrow> exn + unit" where
  "validateMaxLength e n =
     (case n of
        None \<Rightarrow> Inr ()
      | Some m \<Rightarrow>
          (case js_length e of
             Inl x \<Rightarrow> Inl x
           | Inr len \<Rightarrow>
               if num_gt (toNumber len) (Fin (of_nat m))
               then Inl (Failed ''MAX_LENGTH''
                      (''String is too long ('' @ toStr len @ '' chars), maximum '' @ show_nat m))
               else Inr ()))"

definition keys_length :: "jsval \<Rightarrow> nat" where
  "keys_length e = (case e of JObj kvs \<Rightarrow> length (remdups (map fst kvs)) | _ \<Rightarrow> 0)"

definition validateMaxProperties :: "jsval \<Rightarrow> nat option \<Rightarrow> exn + unit" where
  "validateMaxProperties e n =
     (let i = keys_length e
      in case n of
           None \<Rightarrow> Inr ()
         | Some m \<Rightarrow>
             if m < i
             then Inl (Failed ''MAX_PROPERTIES''
                    (''Number of properties is too many ('' @ show_nat i @ '' properties), maximum '' @ show_nat m))
             else Inr ())"

definition validateMinimum :: "jsval \<Rightarrow> jsval \<Rightarrow> string option \<Rightarrow> bool option \<Rightarrow> exn + unit" where
  "validateMinimum e n i a =
     (let d = (if a = Some True then ''MINIMUM_EXCLUSIVE'' else ''MINIMUM'');
          v = (if i = Some ''integer'' then parseInt e
               else if i = Some ''number'' then parseFloat e
               else NaN)
      in if n = JUndefined then Inr ()
         else (let r = parseFloat n
               in if a = Some True \<and> num_ge r v
                  then Inl (Failed d (''Less than or equal to the configured minimum ('' @ toStr n @ ''): '' @ toStr e))
                  else if num_gt r v
                  then Inl (Failed d (''Less than the configured minimum ('' @ toStr n @ ''): '' @ toStr e))
                  else Inr ()))"

definition validateMinItems :: "jsval \<Rightarrow> nat option \<Rightarrow> exn + unit" where
  "validateMinItems e n =
     (case n of
        None \<Rightarrow> Inr ()
      | Some m \<Rightarrow>
          (case js_length e of
             Inl x \<Rightarrow> Inl x
           | Inr len \<Rightarrow>
               if num_lt (toNumber len) (Fin (of_nat m))
               then Inl (Failed ''ARRAY_LENGTH_SHORT''
                      (''Array is too short ('' @ toStr len @ ''), minimum '' @ show_nat m))
               else Inr ()))"

definition validateMinLength :: "jsval \<Rightarrow> nat option \<Rightarrow> exn + unit" where
  "validateMinLength e n =
     (case n of
        None \<Rightarrow> Inr ()
      | Some m \<Rightarrow>
          (case js_length e of
             Inl x \<Rightarrow> Inl x
           | Inr len \<Rightarrow>
               if num_lt (toNumber len) (Fin (of_nat m))
               then Inl (Failed ''MIN_LENGTH''
                      (''String is too short ('' @ toStr len @ '' chars), minimum '' @ show_nat m))
               else Inr ()))"

definition validateMinProperties :: "jsval \<Rightarrow> nat option \<Rightarrow> exn + unit" where
  "validateMinProperties e n =
     (let i = keys_length e
      in case n of
           None \<Rightarrow> Inr ()
         | Some m \<Rightarrow>
             if i < m
             then Inl (Failed ''MIN_PROPERTIES''
                    (''Number of properties is too few ('' @ show_nat i @ '' properties), minimum '' @ show_nat m))
             else Inr ())"

definition validateMultipleOf :: "jsval \<Rightarrow> jsval \<Rightarrow> exn + unit" where
  "validateMultipleOf e n =
     (if n = JUndefined \<or> num_mod (toNumber e) (toNumber n) = Fin 0 then Inr ()
      else Inl (Failed ''MULTIPLE_OF'' (''Not a multiple of '' @ toStr n)))"

definition validatePattern ::
  "(string \<Rightarrow> (string \<Rightarrow> bool) option) \<Rightarrow> jsval \<Rightarrow> string option \<Rightarrow> exn + unit" where
  "validatePattern RegExp e n =
     (case n of
        None \<Rightarrow> Inr ()
      | Some p \<Rightarrow>
          (case e of
             JUndefined \<Rightarrow> Inl TypeErr
           | JNull \<Rightarrow> Inl TypeErr
           | JStr str \<Rightarrow>
               (case RegExp p of
                  None \<Rightarrow> Inl SyntaxErr
                | Some matches \<Rightarrow>
                    if matches str then Inr ()
                    else Inl (Failed ''PATTERN'' (''Does not match required pattern: '' @ p)))
           | _ \<Rightarrow> (case RegExp p of None \<Rightarrow> Inl SyntaxErr | Some matches \<Rightarrow> Inl TypeErr)))"

text \<open>
  \<open>validateUniqueItems\<close> compares \<open>_.uniq(e).length\<close> with \<open>e.length\<close> and builds
  its message with \<open>e.join\<close>, which only an array has. \<open>_.uniq\<close> reads any value
  with a \<open>length\<close> by index (\<open>array_like\<close> for an object) and is empty on anything else.
\<close>

definition array_like :: "(string \<times> jsval) list \<Rightarrow> nat \<Rightarrow> jsval list" where
  "array_like kvs k = map (\<lambda>i. case map_of kvs (show_nat i) of None \<Rightarrow> JUndefined | Some v \<Rightarrow> v) [0..<k]"

definition validateUniqueItems :: "jsval \<Rightarrow> bool option \<Rightarrow> exn + unit" where
  "validateUniqueItems e n =
     (case n of
        None \<Rightarrow> Inr ()
      | Some b \<Rightarrow>
          (case e of
             JArr xs \<Rightarrow>
               if length (js_uniq xs) = length xs then Inr ()
               else Inl (Failed ''ARRAY_UNIQUE''
                      (''Does not allow duplicate values: ''
                       @ join '', '' (map (\<lambda>x. if x = JUndefined \<or> x = JNull then [] else toStr x) xs)))
           | JStr str \<Rightarrow> if length (uniq str) = length str then Inr () else Inl TypeErr
           | JObj kvs \<Rightarrow>
               (case map_of kvs ''length'' of
                  Some (JNum (Fin k)) \<Rightarrow>
                    if of_nat (length (js_uniq (array_like kvs (nat \<lceil>k\<rceil>)))) = k then Inr ()
                    else Inl TypeErr
                | _ \<Rightarrow> Inl TypeErr)
           | _ \<Rightarrow> Inl TypeErr))"

text \<open>
  \<open>validateTypeAndFormat(e, n, i, a)\<close>. \<open>typeSwitch\<close> is its \<open>switch\<close> on the type
  and the format, \<open>returning\<close> its last statement: with the flag \<open>a\<close> it returns the
  verdict \<open>d\<close>, without it it returns nothing or throws. On an array it calls itself
  on each element with the flag set (\<open>eachIndexed\<close>, the callback of \<open>_.each\<close> with
  the index \<open>t\<close>) and throws at the first element that is refused.
\<close>

definition returning :: "bool \<Rightarrow> bool \<Rightarrow> string option \<Rightarrow> string option \<Rightarrow> jsval \<Rightarrow> exn + jsval" where
  "returning a d n i e =
     (if a then Inr (JBool d)
      else if d then Inr JUndefined
      else Inl (Failed ''INVALID_TYPE''
             (''Not a valid '' @ (case i of None \<Rightarrow> [] | Some f \<Rightarrow> f @ '' '') @ opt_str n @ '': '' @ toStr e)))"

definition typeSwitch :: "jsval \<Rightarrow> string option \<Rightarrow> string option \<Rightarrow> exn + bool" where
  "typeSwitch e n i =
     (if n = Some ''boolean'' then Inr ((case e of JBool b \<Rightarrow> True | _ \<Rightarrow> False) \<or> indexOf_found [JStr ''false'', JStr ''true''] e)
      else if n = Some ''integer'' then Inr (parseInt e \<noteq> NaN)
      else if n = Some ''number'' then Inr (parseFloat e \<noteq> NaN)
      else if n = Some ''string'' then
        (if i = Some ''date'' then isValidDate e
         else if i = Some ''date-time'' then isValidDateTime e
         else Inr True)
      else Inr True)"

fun validateTypeAndFormat :: "jsval \<Rightarrow> string option \<Rightarrow> string option \<Rightarrow> bool \<Rightarrow> exn + jsval"
  and eachIndexed :: "jsval list \<Rightarrow> nat \<Rightarrow> string option \<Rightarrow> string option \<Rightarrow> exn + unit"
where
  "validateTypeAndFormat (JArr xs) n i a =
     (case eachIndexed xs 0 n i of
        Inl x \<Rightarrow> Inl x
      | Inr u \<Rightarrow> returning a True n i (JArr xs))"
| "validateTypeAndFormat e n i a =
     (case typeSwitch e n i of
        Inl x \<Rightarrow> Inl x
      | Inr d \<Rightarrow> returning a d n i e)"
| "eachIndexed [] t n i = Inr ()"
| "eachIndexed (e # es) t n i =
     (case validateTypeAndFormat e n i True of
        Inl x \<Rightarrow> Inl x
      | Inr r \<Rightarrow>
          if r = JBool True then eachIndexed es (Suc t) n i
          else Inl (Failed ''INVALID_TYPE''
                 (''Value at index '' @ show_nat t @ '' is not a valid '' @ opt_str n @ '': '' @ toStr e)))"

section \<open>validateSchemaConstraints\<close>

text \<open>
  \<open>andThen\<close> is the comma between two calls that may throw. \<open>unwrapSchema\<close> is the
  inner function \<open>r\<close>, which follows \<open>schema\<close> members and extends the path.
  \<open>typeAndFormatOf\<close> is the call of \<open>validateTypeAndFormat\<close> with the type and format
  of the node, or of its \<open>items\<close> for an array. \<open>withPath\<close> is the \<open>catch\<close> clause,
  which stores the path in the exception and throws it again; the thrown value is the
  pair of the exception and its path.
\<close>

definition andThen :: "exn + 'a \<Rightarrow> exn + 'b \<Rightarrow> exn + 'b" where
  "andThen x y = (case x of Inl err \<Rightarrow> Inl err | Inr r \<Rightarrow> y)"

definition discard :: "exn + 'a \<Rightarrow> exn + unit" where
  "discard x = (case x of Inl err \<Rightarrow> Inl err | Inr r \<Rightarrow> Inr ())"

fun unwrapSchema :: "schema_node \<Rightarrow> string list \<Rightarrow> constraints \<times> string list" where
  "unwrapSchema (Node t None) i = (t, i)"
| "unwrapSchema (Node t (Some sch)) i = unwrapSchema sch (i @ [''schema''])"

definition truthy_str :: "string option \<Rightarrow> bool" where
  "truthy_str x = (case x of None \<Rightarrow> False | Some str \<Rightarrow> str \<noteq> [])"

definition typeAndFormatOf :: "constraints \<Rightarrow> jsval \<Rightarrow> exn + unit" where
  "typeAndFormatOf n a =
     discard
       (if n_type n = Some ''array''
        then (case n_items n of
                None \<Rightarrow> validateTypeAndFormat a (n_type n) (n_format n) False
              | Some items \<Rightarrow>
                  validateTypeAndFormat a
                    (if n_type n = Some ''array'' then i_type items else n_type n)
                    (if n_type n = Some ''array'' \<and> truthy_str (i_format items) then i_format items else n_format n)
                    False)
        else validateTypeAndFormat a (n_type n) (n_format n) False)"

definition withPath :: "string list \<Rightarrow> exn + 'a \<Rightarrow> (exn \<times> string list) + 'a" where
  "withPath i x = (case x of Inl err \<Rightarrow> Inl (err, i) | Inr r \<Rightarrow> Inr r)"

definition defaultOf :: "string \<Rightarrow> constraints \<Rightarrow> jsval" where
  "defaultOf e n = (if e = ''1.2'' then n_defaultValue n else n_default n)"

definition defaultKey :: "string \<Rightarrow> string" where
  "defaultKey e = (if e = ''1.2'' then ''defaultValue'' else ''default'')"

definition validateSchemaConstraints ::
  "(string \<Rightarrow> (string \<Rightarrow> bool) option) \<Rightarrow> string \<Rightarrow> schema_node \<Rightarrow> string list \<Rightarrow> jsval
     \<Rightarrow> (exn \<times> string list) + unit" where
  "validateSchemaConstraints RegExp e n0 i0 a0 =
     (let (n, i1) = unwrapSchema n0 i0
      in case validateArrayType n of
           Inl err \<Rightarrow> Inl (err, i1)
         | Inr u \<Rightarrow>
             (let a = (if a0 = JUndefined then defaultOf e n else a0);
                  i = (if a0 = JUndefined then i1 @ [defaultKey e] else i1)
              in if a = JUndefined then Inr ()
                 else withPath i
                   (andThen (typeAndFormatOf n a)
                   (andThen (validateEnum a (n_enum n))
                   (andThen (validateMaximum a (n_maximum n) (n_type n) (n_exclusiveMaximum n))
                   (andThen (validateMaxItems a (n_maxItems n))
                   (andThen (validateMaxLength a (n_maxLength n))
                   (andThen (validateMaxProperties a (n_maxProperties n))
                   (andThen (validateMinimum a (n_minimum n) (n_type n) (n_exclusiveMinimum n))
                   (andThen (validateMinItems a (n_minItems n))
                   (andThen (validateMinLength a (n_minLength n))
                   (andThen (validateMinProperties a (n_minProperties n))
                   (andThen (validateMultipleOf a (n_multipleOf n))
                   (andThen (validatePattern RegExp a (n_pattern n))
                            (validateUniqueItems a (n_uniqueItems n))))))))))))))))"

text \<open>The node without any member.\<close>

definition no_constraints :: constraints where
  "no_constraints =
     \<lparr>n_type = None, n_format = None, n_items = None, n_enum = None,
      n_maximum = JUndefined, n_exclusiveMaximum = None,
      n_maxItems = None, n_maxLength = None, n_maxProperties = None,
      n_minimum = JUndefined, n_exclusiveMinimum = None,
      n_minItems = None, n_minLength = None, n_minProperties = None,
      n_multipleOf = JUndefined, n_pattern = None, n_uniqueItems = None,
      n_default = JUndefined, n_defaultValue = JUndefined\<rparr>"

section \<open>The specification's reading of the constraint validator\<close>

text \<open>
  The checks in the order the specification lists them, each with the code the
  specification gives it, and the first exception among a list of results.
\<close>

definition orderedChecks ::
  "(string \<Rightarrow> (string \<Rightarrow> bool) option) \<Rightarrow> constraints \<Rightarrow> jsval \<Rightarrow> (string \<times> (exn + unit)) list" where
  "orderedChecks RegExp n a =
     [(''INVALID_TYPE'', typeAndFormatOf n a),
      (''ENUM_MISMATCH'', validateEnum a (n_enum n)),
      (if n_exclusiveMaximum n = Some True then ''MAXIMUM_EXCLUSIVE'' else ''MAXIMUM'',
         validateMaximum a (n_maximum n) (n_type n) (n_exclusiveMaximum n)),
      (''ARRAY_LENGTH_LONG'', validateMaxItems a (n_maxItems n)),
      (''MAX_LENGTH'', validateMaxLength a (n_maxLength n)),
      (''MAX_PROPERTIES'', validateMaxProperties a (n_maxProperties n)),
      (if n_exclusiveMinimum n = Some True then ''MINIMUM_EXCLUSIVE'' else ''MINIMUM'',
         validateMinimum a (n_minimum n) (n_type n) (n_exclusiveMinimum n)),
      (''ARRAY_LENGTH_SHORT'', validateMinItems a (n_minItems n)),
      (''MIN_LENGTH'', validateMinLength a (n_minLength n)),
      (''MIN_PROPERTIES'', validateMinProperties a (n_minProperties n)),
      (''MULTIPLE_OF'', validateMultipleOf a (n_multipleOf n)),
      (''PATTERN'', validatePattern RegExp a (n_pattern n)),
      (''ARRAY_UNIQUE'', validateUniqueItems a (n_uniqueItems n))]"

fun firstFailure :: "(exn + unit) list \<Rightarrow> exn + unit" where
  "firstFailure [] = Inr ()"
| "firstFailure (Inl err # rs) = Inl err"
| "firstFailure (Inr u # rs) = firstFailure rs"






section \<open>Documents as trees\<close>

text \<open>
  A document is a value; an object lists its members in insertion order. \<open>member\<close> is
  the read of a member of a plain object. \<open>own\<close> is an own property of a value by key
  (an index or \<open>length\<close> on an array or a string), and \<open>tget\<close> is
  \<open>traverse(node).get(ps)\<close>, which follows a path of keys and is \<open>undefined\<close> as
  soon as a key is missing.
\<close>

definition truthy :: "jsval \<Rightarrow> bool" where
  "truthy v = (v \<notin> {JUndefined, JNull, JBool False, JNum (Fin 0), JNum NaN, JStr []})"

definition isPlainObject :: "jsval \<Rightarrow> bool" where
  "isPlainObject v = (case v of JObj kvs \<Rightarrow> True | _ \<Rightarrow> False)"

definition member :: "jsval \<Rightarrow> string \<Rightarrow> jsval" where
  "member v k =
     (case v of JObj kvs \<Rightarrow> (case map_of kvs k of None \<Rightarrow> JUndefined | Some x \<Rightarrow> x)
      | _ \<Rightarrow> JUndefined)"

definition index_of_key :: "string \<Rightarrow> nat \<Rightarrow> nat option" where
  "index_of_key k len = find (\<lambda>i. show_nat i = k) [0..<len]"

fun own :: "jsval \<Rightarrow> string \<Rightarrow> jsval option" where
  "own (JObj kvs) k = map_of kvs k"
| "own (JArr xs) k =
     (if k = ''length'' then Some (JNum (Fin (of_nat (length xs))))
      else (case index_of_key k (length xs) of None \<Rightarrow> None | Some i \<Rightarrow> Some (xs ! i)))"
| "own (JStr str) k =
     (if k = ''length'' then Some (JNum (Fin (of_nat (length str))))
      else (case index_of_key k (length str) of None \<Rightarrow> None | Some i \<Rightarrow> Some (JStr [str ! i])))"
| "own v k = None"

fun tget :: "jsval \<Rightarrow> string list \<Rightarrow> jsval" where
  "tget node [] = node"
| "tget node (key # ps) =
     (if \<not> truthy node then JUndefined
      else (case own node key of None \<Rightarrow> JUndefined | Some v \<Rightarrow> tget v ps))"

text \<open>
  The pointer functions of the JsonRefs library on local pointers: \<open>pathToPointer\<close>
  joins the escaped segments after \<open>#\<close>, \<open>pathFromPointer\<close> splits what follows
  \<open>#\<close> at \<open>/\<close>, drops the empty first piece and replaces \<open>~0\<close> and then \<open>~1\<close>
  in each segment.
\<close>

fun replaceAll :: "char \<Rightarrow> char \<Rightarrow> char \<Rightarrow> string \<Rightarrow> string" where
  "replaceAll a b c (x # y # zs) =
     (if x = a \<and> y = b then c # replaceAll a b c zs else x # replaceAll a b c (y # zs))"
| "replaceAll a b c zs = zs"

definition escape :: "string \<Rightarrow> string" where
  "escape part =
     concat (map (\<lambda>c. if c = CHR ''~'' then ''~0'' else if c = CHR ''/'' then ''~1'' else [c]) part)"

definition unescape :: "string \<Rightarrow> string" where
  "unescape part = replaceAll (CHR ''~'') (CHR ''1'') (CHR ''/'') (replaceAll (CHR ''~'') (CHR ''0'') (CHR ''~'') part)"

definition pathToPointer :: "string list \<Rightarrow> string" where
  "pathToPointer path = CHR ''#'' # concat (map (\<lambda>part. CHR ''/'' # escape part) path)"

definition pathFromPointer :: "string \<Rightarrow> string list" where
  "pathFromPointer ptr =
     (if take 1 ptr = ''#'' \<and> ptr \<noteq> ''#''
      then (let path = map unescape (split_on (CHR ''/'') (drop 1 ptr))
            in if 1 < length path then tl path else path)
      else [])"

text \<open>
  \<open>tset\<close> is \<open>traverse(node).set(ps, value)\<close>: it walks all keys but the last,
  creating an empty object where a key is missing, and assigns the value at the last key;
  with an empty path the last key is \<open>undefined\<close>. \<open>assign\<close> is the assignment
  \<open>node[k] = v\<close>.
\<close>

fun assign :: "jsval \<Rightarrow> string \<Rightarrow> jsval \<Rightarrow> jsval" where
  "assign (JObj kvs) k v =
     JObj (if k \<in> set (map fst kvs) then map (\<lambda>(k', x). if k' = k then (k', v) else (k', x)) kvs
           else kvs @ [(k, v)])"
| "assign (JArr xs) k v =
     (case index_of_key k (Suc (length xs)) of
        None \<Rightarrow> JArr xs
      | Some i \<Rightarrow> JArr (if i < length xs then xs[i := v] else xs @ [v]))"
| "assign node k v = node"

fun tset :: "jsval \<Rightarrow> string list \<Rightarrow> jsval \<Rightarrow> jsval" where
  "tset node [] value = assign node ''undefined'' value"
| "tset node [key] value = assign node key value"
| "tset node (key # ps) value =
     assign node key (tset (case own node key of None \<Rightarrow> JObj [] | Some child \<Rightarrow> child) ps value)"

text \<open>
  \<open>JsonRefs.findRefs\<close>: every member named \<open>$ref\<close> whose value is a string, in the
  order of a walk of the document, as the pair of its pointer and its value.
\<close>

fun findRefsAt :: "string list \<Rightarrow> jsval \<Rightarrow> (string \<times> string) list"
  and findRefsIn :: "string list \<Rightarrow> (string \<times> jsval) list \<Rightarrow> (string \<times> string) list"
  and findRefsEl :: "string list \<Rightarrow> nat \<Rightarrow> jsval list \<Rightarrow> (string \<times> string) list"
where
  "findRefsAt path (JObj kvs) = findRefsIn path kvs"
| "findRefsAt path (JArr xs) = findRefsEl path 0 xs"
| "findRefsAt path v = []"
| "findRefsIn path [] = []"
| "findRefsIn path ((k, v) # kvs) =
     (case v of JStr ref \<Rightarrow> if k = ''$ref'' then [(pathToPointer (path @ [k]), ref)] else []
      | _ \<Rightarrow> [])
     @ findRefsAt (path @ [k]) v @ findRefsIn path kvs"
| "findRefsEl path i [] = []"
| "findRefsEl path i (v # vs) = findRefsAt (path @ [show_nat i]) v @ findRefsEl path (Suc i) vs"

definition findRefs :: "jsval \<Rightarrow> (string \<times> string) list" where
  "findRefs json = findRefsAt [] json"

section \<open>Reports\<close>

text \<open>
  A report holds errors and warnings and, for the multi-document dialect, one such pair
  per API declaration. \<open>l\<close> keeps a report that has a finding and turns any other into
  \<open>undefined\<close>; \<open>m\<close> builds the error that carries a report's errors and warnings
  (its caller passes it to the callback).
\<close>

record findings =
  errors :: "finding list"
  warnings :: "finding list"

record report = findings +
  apiDeclarations :: "findings option list option"

definition l :: "report option \<Rightarrow> report option" where
  "l e =
     (case e of
        None \<Rightarrow> None
      | Some r \<Rightarrow>
          if 0 < length (errors r) + length (warnings r)
                 + foldl (\<lambda>acc d. case d of None \<Rightarrow> acc
                                  | Some x \<Rightarrow> acc + (length (errors x) + length (warnings x)))
                     0 (case apiDeclarations r of None \<Rightarrow> [] | Some ds \<Rightarrow> ds)
          then Some r else None)"

definition m :: "report \<Rightarrow> exn" where
  "m e = Invalid ''The Swagger document is invalid and model composition is not possible''
           (errors e) (warnings e)"

section \<open>The specification registry\<close>

text \<open>
  The registry \<open>c\<close> of the specification module maps the hash of a document's content to
  its entry: the definitions tracked in the document, the original and the resolved tree
  (\<open>undefined\<close> until the document is resolved), and the hash of the resolved tree.
  A tracked definition has the pointers that refer to it and, for a model, its parents,
  its lineage and the cyclical flag.

  The collaborators of the module are the fields of \<open>env\<close>: \<open>hash\<close> is
  \<open>SparkMD5.hash(JSON.stringify(doc))\<close>; \<open>remoteReferences\<close> is the outcome of the
  function \<open>u\<close>, which fetches the remote references of a document for the validator
  (an error, or nothing); \<open>validate\<close> is the schema validator of a specification version
  on a schema and a document (it throws, reports errors, or accepts); \<open>resolveRefs\<close> is
  \<open>JsonRefs.resolveRefs\<close>, which fetches and resolves the references of a document;
  \<open>getAtPointer doc n\<close> is \<open>traverse(doc).get(JsonRefs.pathFromPointer(n))\<close> for an
  argument \<open>n\<close> of any kind. Every call of \<open>remoteReferences\<close>, \<open>validate\<close> and
  \<open>resolveRefs\<close> is recorded in the trace of the world, next to the registry.
\<close>

record defnode =
  references :: "string list"
  cyclical :: "bool option"
  lineage :: "string list option"
  parents :: "string list option"

record entry =
  definitions :: "(string \<times> defnode) list"
  original :: jsval
  resolved :: jsval
  resolvedId :: "string option"
  swaggerVersion :: jsval

datatype schema_ref = SchemaName string | SchemaObject jsval

datatype arg = Value jsval | Callback nat

datatype ext_call = RemoteReferences jsval | Validate string schema_ref jsval | ResolveRefs jsval

record env =
  hash :: "jsval \<Rightarrow> string"
  remoteReferences :: "jsval \<Rightarrow> exn option"
  validate :: "string \<Rightarrow> schema_ref \<Rightarrow> jsval \<Rightarrow> exn + finding list option"
  resolveRefs :: "jsval \<Rightarrow> exn + jsval"
  getAtPointer :: "jsval \<Rightarrow> arg \<Rightarrow> exn + jsval"

record world =
  registry :: "(string \<times> entry) list"
  trace :: "ext_call list"

text \<open>
  \<open>g\<close> looks a document up by the hash of its content, then among the entries whose
  resolved tree has that hash, and creates an entry when there is none. It returns the key
  of the entry in the registry.
\<close>

definition getSwaggerVersion :: "jsval \<Rightarrow> jsval" where
  "getSwaggerVersion e =
     (if isPlainObject e
      then (if truthy (member e ''swaggerVersion'') then member e ''swaggerVersion'' else member e ''swagger'')
      else JUndefined)"

definition g :: "env \<Rightarrow> (string \<times> entry) list \<Rightarrow> jsval \<Rightarrow> string \<times> (string \<times> entry) list" where
  "g env c e =
     (let n = hash env e
      in case map_of c n of
           Some found \<Rightarrow> (n, c)
         | None \<Rightarrow>
             (case find (\<lambda>(k, x). resolvedId x = Some n) c of
                Some (k, x) \<Rightarrow> (k, c)
              | None \<Rightarrow>
                  (n, c @ [(n, \<lparr>definitions = [], original = e, resolved = JUndefined,
                                 resolvedId = None, swaggerVersion = getSwaggerVersion e\<rparr>)])))"

definition the_entry :: "(string \<times> entry) list \<Rightarrow> string \<Rightarrow> entry" where
  "the_entry c k = the (map_of c k)"

definition update_entry :: "string \<Rightarrow> (entry \<Rightarrow> entry) \<Rightarrow> (string \<times> entry) list \<Rightarrow> (string \<times> entry) list" where
  "update_entry k f c = map (\<lambda>(k', x). if k' = k then (k', f x) else (k', x)) c"

text \<open>
  The function \<open>O\<close> resolves a document once: when the entry has a resolved tree it does
  nothing, otherwise it calls \<open>resolveRefs\<close> (for dialect 1.2 on a copy in which every
  reference is rewritten to \<open>#/models/\<close> and its text, \<open>implicitRefs\<close>) and stores the
  tree and its hash. The function \<open>P\<close> fetches the remote references, validates the
  document against a schema and then calls \<open>O\<close>; its result is the pair of arguments it
  passes to its callback.
\<close>

definition implicitRefs :: "jsval \<Rightarrow> jsval" where
  "implicitRefs e =
     foldl (\<lambda>doc (ptr, ref). tset doc (pathFromPointer ptr) (JStr (''#/models/'' @ ref))) e (findRefs e)"

definition O' :: "env \<Rightarrow> world \<Rightarrow> jsval \<Rightarrow> exn option \<times> world" where
  "O' env w e =
     (let (c, reg) = g env (registry w) e;
          u = getSwaggerVersion e
      in if truthy (resolved (the_entry reg c)) then (None, w\<lparr>registry := reg\<rparr>)
         else
           (let e' = (if u = JStr ''1.2'' then implicitRefs e else e);
                w' = w\<lparr>registry := reg, trace := trace w @ [ResolveRefs e']\<rparr>
            in case resolveRefs env e' of
                 Inl err \<Rightarrow> (Some err, w')
               | Inr r \<Rightarrow>
                   (None, w'\<lparr>registry := update_entry c
                                  (\<lambda>x. x\<lparr>resolved := r, resolvedId := Some (hash env r)\<rparr>) reg\<rparr>)))"

definition P :: "env \<Rightarrow> world \<Rightarrow> string \<Rightarrow> schema_ref \<Rightarrow> jsval \<Rightarrow> (exn option \<times> report option) \<times> world" where
  "P env w version n doc =
     (let w1 = w\<lparr>trace := trace w @ [RemoteReferences doc]\<rparr>
      in case remoteReferences env doc of
           Some err \<Rightarrow> ((Some err, None), w1)
         | None \<Rightarrow>
             (let w2 = w1\<lparr>trace := trace w1 @ [Validate version n doc]\<rparr>
              in case validate env version n doc of
                   Inl err \<Rightarrow> ((Some err, None), w2)
                 | Inr (Some errs) \<Rightarrow>
                     ((None, Some \<lparr>errors = errs, warnings = [], apiDeclarations = None\<rparr>), w2)
                 | Inr None \<Rightarrow>
                     (let (err, w3) = O' env w2 doc in ((err, None), w3))))"

section \<open>resolve\<close>

text \<open>
  An argument of an API call is a value or a function (a callback, with a number to tell
  callbacks apart). A call either throws or calls a callback with an error and a result.
  \<open>resolve(e, n, i)\<close> with \<open>i = arguments[1]\<close>: the second argument is taken as the
  callback; \<open>third\<close> is the third argument, which the code never reads.
\<close>

datatype outcome = Throws exn | Calls nat "exn option" jsval

definition schemaFor :: "jsval \<Rightarrow> jsval \<Rightarrow> string" where
  "schemaFor version e =
     (if version = JStr ''1.2''
      then (if find (\<lambda>n. member e n \<noteq> JUndefined)
                 [''basePath'', ''consumes'', ''models'', ''produces'', ''resourcePath''] \<noteq> None
            then ''apiDeclaration.json'' else ''resourceListing.json'')
      else ''schema.json'')"

definition resolve :: "env \<Rightarrow> string \<Rightarrow> world \<Rightarrow> jsval \<Rightarrow> arg \<Rightarrow> arg \<Rightarrow> outcome \<times> world" where
  "resolve env version w e n third =
     (if e = JUndefined then (Throws (Err ''document is required''), w)
      else if \<not> isPlainObject e then (Throws (TypeError ''document must be an object''), w)
      else
        (let i = n
         in case i of
              Value v \<Rightarrow>
                if v = JUndefined then (Throws (Err ''callback is required''), w)
                else (Throws (TypeError ''callback must be a function''), w)
            | Callback k \<Rightarrow>
                (let (t, reg) = g env (registry w) e;
                     w0 = w\<lparr>registry := reg\<rparr>
                 in if truthy (resolved (the_entry reg t)) then (Calls k None (resolved (the_entry reg t)), w0)
                    else
                      (let a = schemaFor (swaggerVersion (the_entry reg t)) e;
                           ((err, results), w1) = P env w0 version (SchemaName a) e
                       in case err of
                            Some x \<Rightarrow> (Calls k (Some x) JUndefined, w1)
                          | None \<Rightarrow>
                              (case l results of
                                 Some r \<Rightarrow> (Calls k (Some (m r)) JUndefined, w1)
                               | None \<Rightarrow>
                                   if n = Value JUndefined
                                   then (Calls k None (resolved (the_entry (registry w1) t)), w1)
                                   else (case getAtPointer env (resolved (the_entry (registry w1) t)) n of
                                           Inl x \<Rightarrow> (Throws x, w1)
                                         | Inr v \<Rightarrow> (Calls k None v, w1)))))))"

text \<open>The entry \<open>g\<close> creates, and the document \<open>O\<close> passes to \<open>resolveRefs\<close>.\<close>

definition new_entry :: "jsval \<Rightarrow> entry" where
  "new_entry e = \<lparr>definitions = [], original = e, resolved = JUndefined,
                  resolvedId = None, swaggerVersion = getSwaggerVersion e\<rparr>"

definition resolvable :: "jsval \<Rightarrow> jsval" where
  "resolvable e = (if getSwaggerVersion e = JStr ''1.2'' then implicitRefs e else e)"

section \<open>Example collaborators\<close>

text \<open>
  Collaborators for the examples: \<open>stringify\<close> stands for the hash (it is injective
  enough for them), references resolve to the document itself, the validator of
  \<open>rejecting_env\<close> reports one error on every document and that of \<open>accepting_env\<close>
  accepts every document.
\<close>

fun stringify :: "jsval \<Rightarrow> string"
  and stringifyMembers :: "(string \<times> jsval) list \<Rightarrow> string list"
  and stringifyElements :: "jsval list \<Rightarrow> string list"
where
  "stringify JUndefined = ''undefined''"
| "stringify JNull = ''null''"
| "stringify (JBool b) = (if b then ''true'' else ''false'')"
| "stringify (JNum x) = show_num x"
| "stringify (JStr str) = [CHR 0x22] @ str @ [CHR 0x22]"
| "stringify (JArr xs) = ''['' @ join '','' (stringifyElements xs) @ '']''"
| "stringify (JObj kvs) = ''{'' @ join '','' (stringifyMembers kvs) @ ''}''"
| "stringifyMembers [] = []"
| "stringifyMembers ((k, v) # kvs) = ([CHR 0x22] @ k @ [CHR 0x22] @ '':'' @ stringify v) # stringifyMembers kvs"
| "stringifyElements [] = []"
| "stringifyElements (v # vs) = stringify v # stringifyElements vs"

definition rejecting_env :: env where
  "rejecting_env =
     \<lparr>hash = stringify,
      remoteReferences = (\<lambda>doc. None),
      validate = (\<lambda>version n doc.
         Inr (Some [Finding ''OBJECT_MISSING_REQUIRED_PROPERTY'' ''Missing required property: info'' []])),
      resolveRefs = (\<lambda>doc. Inr doc),
      getAtPointer = (\<lambda>doc ptr. Inr JUndefined)\<rparr>"

definition accepting_env :: env where
  "accepting_env =
     \<lparr>hash = stringify,
      remoteReferences = (\<lambda>doc. None),
      validate = (\<lambda>version n doc. Inr None),
      resolveRefs = (\<lambda>doc. Inr doc),
      getAtPointer = (\<lambda>doc ptr. Inr JUndefined)\<rparr>"

definition empty_world :: world where
  "empty_world = \<lparr>registry = [], trace = []\<rparr>"

definition small_doc :: jsval where
  "small_doc = JObj [(''swagger'', JStr ''2.0''), (''paths'', JObj [])]"

section \<open>Inheritance in the semantic checks\<close>

text \<open>
  The part of the function \<open>E\<close> (the semantic checks of one document) that computes the
  parents, the lineage and the cyclical flag of the models, with the findings it raises
  on the way. \<open>E\<close> works on a registry entry and a pair of error and warning lists.
  Its other checks (security definitions and scopes, parameters and responses, the
  properties and constraints of each model, and the references of the document) add
  findings and references but leave parents, lineage and flags alone; they are not part
  of \<open>E_inheritance\<close>.

  \<open>d_push\<close> is the helper \<open>d\<close>, which appends a finding. \<open>E_track\<close> is the local
  function \<open>t\<close>: it returns the node tracked under a path and creates it when there is
  none, with the inheritance members for a model. \<open>E_name\<close> is the local function
  \<open>a\<close>, the name a pointer is printed with.
\<close>

definition toUpperCase :: "string \<Rightarrow> string" where
  "toUpperCase str =
     map (\<lambda>c. if 97 \<le> (of_char c :: nat) \<and> (of_char c :: nat) \<le> 122
              then char_of (of_char c - (32 :: nat)) else c) str"

definition d_push :: "string \<Rightarrow> string \<Rightarrow> string list \<Rightarrow> finding list \<Rightarrow> finding list" where
  "d_push code' message' path' dest = dest @ [Finding code' message' path']"

definition lookup_def :: "entry \<Rightarrow> string \<Rightarrow> defnode option" where
  "lookup_def e ptr = map_of (definitions e) ptr"

definition update_def :: "string \<Rightarrow> (defnode \<Rightarrow> defnode) \<Rightarrow> entry \<Rightarrow> entry" where
  "update_def ptr upd e =
     e\<lparr>definitions := map (\<lambda>(k, x). if k = ptr then (k, upd x) else (k, x)) (definitions e)\<rparr>"

definition isModelPath :: "string list \<Rightarrow> bool" where
  "isModelPath path =
     (case path of [] \<Rightarrow> False | first # rest \<Rightarrow> first \<in> set [''definitions'', ''models''])"

definition E_track :: "entry \<Rightarrow> string list \<Rightarrow> entry" where
  "E_track e r =
     (let n = pathToPointer r
      in case lookup_def e n of
           Some i \<Rightarrow> e
         | None \<Rightarrow>
             e\<lparr>definitions := definitions e @
                 [(n, if isModelPath (pathFromPointer n)
                      then \<lparr>references = [], cyclical = Some False, lineage = None, parents = Some []\<rparr>
                      else \<lparr>references = [], cyclical = None, lineage = None, parents = None\<rparr>)]\<rparr>)"

definition E_name :: "jsval \<Rightarrow> string \<Rightarrow> string" where
  "E_name version ptr = (if version = JStr ''1.2'' then last (pathFromPointer ptr) else ptr)"

text \<open>
  \<open>E_walk\<close> is the local function \<open>c\<close>, the walk over the parents of a node:
  every parent is pushed on the accumulator, and the walk goes on from each parent that is
  not the node the walk started from. The recursion of the source has no bound; in the
  model each call spends one unit of fuel, and \<open>None\<close> says that the fuel ran out.
\<close>

fun E_walk :: "nat \<Rightarrow> entry \<Rightarrow> string \<Rightarrow> string option \<Rightarrow> string list \<Rightarrow> string list option"
  and E_walkEach :: "nat \<Rightarrow> entry \<Rightarrow> string \<Rightarrow> string list \<Rightarrow> string list \<Rightarrow> string list option"
where
  "E_walk 0 e n i acc = None"
| "E_walk (Suc fuel) e n i acc =
     (case lookup_def e (case i of None \<Rightarrow> n | Some p \<Rightarrow> if p = [] then n else p) of
        None \<Rightarrow> Some acc
      | Some node \<Rightarrow> E_walkEach fuel e n (case parents node of None \<Rightarrow> [] | Some ps \<Rightarrow> ps) acc)"
| "E_walkEach fuel e n [] acc = Some acc"
| "E_walkEach fuel e n (p # ps) acc =
     (if n \<noteq> p
      then (case E_walk fuel e n (Some p) (acc @ [p]) of
              None \<Rightarrow> None
            | Some acc' \<Rightarrow> E_walkEach fuel e n ps acc')
      else E_walkEach fuel e n ps (acc @ [p]))"

text \<open>
  \<open>f_addReference\<close> is the helper \<open>f\<close> on paths: it records that the node at
  \<open>tpath\<close> refers to the definition at \<open>n\<close>, or raises \<open>UNRESOLVABLE_...\<close> when
  that definition is not tracked, and says which of the two it did.
\<close>

definition kindOf :: "string \<Rightarrow> string" where
  "kindOf first = toUpperCase (butlast first)"

definition capitalized :: "string \<Rightarrow> string" where
  "capitalized w = take 1 w @ toLowerCase (drop 1 w)"

definition f_addReference ::
  "entry \<Rightarrow> string list \<Rightarrow> string list \<Rightarrow> findings \<Rightarrow> bool \<times> entry \<times> findings" where
  "f_addReference e n tpath s =
     (let u = getSwaggerVersion (resolved e);
          ptr = pathToPointer n;
          lptr = pathToPointer tpath;
          first = hd n;
          w0 = (if first = ''securityDefinitions'' then ''SECURITY_DEFINITION'' else kindOf first);
          v = (if u = JStr ''1.2'' then last n else ptr);
          b0 = (if first = ''securityDefinitions'' then ''Security definition'' else capitalized w0);
          scoped = (first \<in> set [''authorizations'', ''securityDefinitions'']
                    \<and> 2 < length n \<and> n ! 2 = ''scopes'');
          w = (if scoped then w0 @ ''_SCOPE'' else w0);
          b = (if scoped then b0 @ '' scope'' else b0)
      in case lookup_def e ptr of
           None \<Rightarrow>
             (False, e, s\<lparr>errors := d_push (''UNRESOLVABLE_'' @ w) (b @ '' could not be resolved: '' @ v)
                                      tpath (errors s)\<rparr>)
         | Some node \<Rightarrow>
             (True, update_def ptr (\<lambda>x. x\<lparr>references := references x @ [lptr]\<rparr>) e, s))"

text \<open>
  The loop of \<open>E\<close> over the models of the resolved document. For dialect 1.2 each
  model names its children in \<open>subTypes\<close> (strings, by the meta-schema), and the model
  becomes a parent of each child that is tracked; for dialect 2.0 each member of the
  model's \<open>allOf\<close> in the original document is a parent, by its reference if it is a
  local one and by its own path otherwise.
\<close>

definition strings_of :: "jsval \<Rightarrow> string list" where
  "strings_of v =
     (case v of JArr xs \<Rightarrow> concat (map (\<lambda>x. case x of JStr str \<Rightarrow> [str] | _ \<Rightarrow> []) xs) | _ \<Rightarrow> [])"

definition members_of :: "jsval \<Rightarrow> (string \<times> jsval) list" where
  "members_of v = (case v of JObj kvs \<Rightarrow> kvs | _ \<Rightarrow> [])"

definition elements_of :: "jsval \<Rightarrow> jsval list" where
  "elements_of v = (case v of JArr xs \<Rightarrow> xs | _ \<Rightarrow> [])"

definition pushParent :: "string \<Rightarrow> string \<Rightarrow> entry \<Rightarrow> entry" where
  "pushParent child parent e =
     update_def child (\<lambda>x. x\<lparr>parents := Some ((case parents x of None \<Rightarrow> [] | Some ps \<Rightarrow> ps) @ [parent])\<rparr>) e"

definition subTypeStep ::
  "string list \<Rightarrow> entry \<times> findings \<Rightarrow> nat \<times> string \<Rightarrow> entry \<times> findings" where
  "subTypeStep cpath st ir =
     (let (e, n) = st; (i, r) = ir;
          spath = [''models'', r];
          aptr = pathToPointer spath;
          dpath = cpath @ [''subTypes'', show_nat i];
          e1 = (if lookup_def e aptr = None \<and> truthy (tget (resolved e) [''models'', r])
                then E_track e spath else e);
          (found, e2, n2) = f_addReference e1 spath dpath n
      in if found then (pushParent aptr (pathToPointer cpath) e2, n2) else (e2, n2))"

definition isRemotePointer :: "string \<Rightarrow> bool" where
  "isRemotePointer ptr = (take 1 ptr \<noteq> ''#'')"

definition allOfStep ::
  "string list \<Rightarrow> entry \<times> findings \<Rightarrow> nat \<times> jsval \<Rightarrow> entry \<times> findings" where
  "allOfStep cpath st isch =
     (let (e, n) = st; (s, i) = isch;
          ppath = cpath @ [''allOf'', show_nat s]
      in case member i ''$ref'' of
           JStr ref \<Rightarrow>
             if isRemotePointer ref
             then (pushParent (pathToPointer cpath) (pathToPointer ppath) e, n)
             else (let e1 = E_track e (pathFromPointer ref);
                       dpath = pathFromPointer ref;
                       e2 = pushParent (pathToPointer cpath) (pathToPointer dpath) e1;
                       (found, e3, n3) = f_addReference e2 dpath ppath n
                   in (e3, n3))
         | _ \<Rightarrow> (pushParent (pathToPointer cpath) (pathToPointer ppath) e, n))"

definition modelStep :: "entry \<times> findings \<Rightarrow> string \<times> jsval \<Rightarrow> entry \<times> findings" where
  "modelStep st am =
     (let (e0, n0) = st; (name, s) = am;
          version = swaggerVersion e0;
          p = (if version = JStr ''1.2'' then ''models'' else ''definitions'');
          cpath = [p, name];
          e = E_track e0 cpath;
          n = (if version = JStr ''1.2'' \<and> JStr name \<noteq> member s ''id''
               then n0\<lparr>errors := d_push ''MODEL_ID_MISMATCH''
                                    (''Model id does not match id in models object: '' @ toStr (member s ''id''))
                                    (cpath @ [''id'']) (errors n0)\<rparr>
               else n0)
      in case lookup_def e (pathToPointer cpath) of
           None \<Rightarrow> (e, n)
         | Some u \<Rightarrow>
             if lineage u = None
             then (if version = JStr ''1.2''
                   then foldl (subTypeStep cpath) (e, n) (List.enumerate 0 (strings_of (member s ''subTypes'')))
                   else foldl (allOfStep cpath) (e, n)
                          (List.enumerate 0 (elements_of (tget (original e) [p, name, ''allOf'']))))
             else (e, n))"

definition E_models :: "entry \<times> findings \<Rightarrow> entry \<times> findings" where
  "E_models st =
     (let e = fst st;
          p = (if swaggerVersion e = JStr ''1.2'' then ''models'' else ''definitions'')
      in foldl modelStep st (members_of (member (resolved e) p)))"

text \<open>
  The loop of \<open>E\<close> over the tracked definitions, for one definition \<open>u\<close>: a model
  without a lineage gets the reversed walk as its lineage and is cyclical when the lineage
  has more than one member and starts with the model itself; then the findings for
  multiple and for cyclical inheritance are raised. \<open>E_inheritance\<close> runs the two loops.
\<close>

definition lineageStep :: "nat \<Rightarrow> (entry \<times> findings) option \<Rightarrow> string \<Rightarrow> (entry \<times> findings) option" where
  "lineageStep fuel st u =
     (case st of
        None \<Rightarrow> None
      | Some (e, n) \<Rightarrow>
          (case lookup_def e u of
             None \<Rightarrow> Some (e, n)
           | Some node \<Rightarrow>
               (let l = pathFromPointer u;
                    version = swaggerVersion e;
                    w = kindOf (hd l);
                    v = capitalized w
                in if \<not> isModelPath l then Some (e, n)
                   else
                     (case (case lineage node of
                              Some h \<Rightarrow> Some (h, e)
                            | None \<Rightarrow>
                                (case E_walk fuel e u None [] of
                                   None \<Rightarrow> None
                                 | Some acc \<Rightarrow>
                                     Some (rev acc,
                                           update_def u (\<lambda>x. x\<lparr>lineage := Some (rev acc),
                                                                cyclical := Some (1 < length acc \<and> hd (rev acc) = u)\<rparr>) e))) of
                        None \<Rightarrow> None
                      | Some (h, e1) \<Rightarrow>
                          (let node1 = the (lookup_def e1 u);
                               ps = (case parents node1 of None \<Rightarrow> [] | Some ps \<Rightarrow> ps);
                               n1 = (if 1 < length ps \<and> version = JStr ''1.2''
                                     then n\<lparr>errors := d_push (''MULTIPLE_'' @ w @ ''_INHERITANCE'')
                                            (''Child '' @ toLowerCase w @ '' is sub type of multiple models: ''
                                             @ join '' && '' (map (E_name version) ps))
                                            l (errors n)\<rparr>
                                     else n);
                               n2 = (if cyclical node1 = Some True
                                     then n1\<lparr>errors := d_push (''CYCLICAL_'' @ w @ ''_INHERITANCE'')
                                            (v @ '' has a circular inheritance: ''
                                             @ join '' -> '' (map (E_name version) h) @ '' -> '' @ E_name version u)
                                            (l @ [if version = JStr ''1.2'' then ''subTypes'' else ''allOf''])
                                            (errors n1)\<rparr>
                                     else n1)
                           in Some (e1, n2))))))"

definition E_inheritance :: "nat \<Rightarrow> entry \<Rightarrow> findings \<Rightarrow> (entry \<times> findings) option" where
  "E_inheritance fuel e n =
     (let st = E_models (e, n)
      in foldl (lineageStep fuel) (Some st) (map fst (definitions (fst st))))"

text \<open>
  Two documents of dialect 1.2: in \<open>cyclic_doc\<close> the models A and B are each other's
  sub type; \<open>tail_doc\<close> has a third model C that is a sub type of A as well.
  \<open>entry_of\<close> is the registry entry of a document that resolves to itself.
\<close>

definition cyclic_doc :: jsval where
  "cyclic_doc =
     JObj [(''swaggerVersion'', JStr ''1.2''),
           (''models'', JObj
              [(''A'', JObj [(''id'', JStr ''A''), (''properties'', JObj []),
                             (''subTypes'', JArr [JStr ''B'']), (''discriminator'', JStr ''kind'')]),
               (''B'', JObj [(''id'', JStr ''B''), (''properties'', JObj []),
                             (''subTypes'', JArr [JStr ''A'']), (''discriminator'', JStr ''kind'')])])]"

definition entry_of :: "jsval \<Rightarrow> entry" where
  "entry_of doc = (new_entry doc)\<lparr>resolved := doc\<rparr>"

definition no_findings :: findings where
  "no_findings = \<lparr>errors = [], warnings = []\<rparr>"


definition tail_doc :: jsval where
  "tail_doc =
     JObj [(''swaggerVersion'', JStr ''1.2''),
           (''models'', JObj
              [(''A'', JObj [(''id'', JStr ''A''), (''properties'', JObj []),
                             (''subTypes'', JArr [JStr ''B'', JStr ''C'']), (''discriminator'', JStr ''kind'')]),
               (''B'', JObj [(''id'', JStr ''B''), (''properties'', JObj []),
                             (''subTypes'', JArr [JStr ''A'']), (''discriminator'', JStr ''kind'')]),
               (''C'', JObj [(''id'', JStr ''C''), (''properties'', JObj [])])])]"

section \<open>Model composition\<close>

text \<open>
  The function \<open>p\<close> (named \<open>C\<close> inside) composes the schema of a tracked model. It
  calls itself on the members of the lineage and on referenced models, without a bound;
  in the model each call spends one unit of fuel, \<open>None\<close> says that the fuel ran out,
  and a result is an exception of the runtime or a value (\<open>undefined\<close> for a pointer
  that is not tracked).

  \<open>removeIds\<close> is \<open>traverse(i).map\<close> with the callback that removes every member
  named \<open>id\<close> whose value is a string. \<open>assignE\<close> and \<open>deleteE\<close> are an assignment
  to and the deletion of a member of a node that may be \<open>undefined\<close>. \<open>popName\<close> is
  \<open>pathFromPointer(n).pop()\<close>, printed.
\<close>

definition isString :: "jsval \<Rightarrow> bool" where
  "isString v = (case v of JStr str \<Rightarrow> True | _ \<Rightarrow> False)"

fun removeIds :: "jsval \<Rightarrow> jsval"
  and removeIdsMembers :: "(string \<times> jsval) list \<Rightarrow> (string \<times> jsval) list"
  and removeIdsElements :: "jsval list \<Rightarrow> jsval list"
where
  "removeIds (JObj kvs) = JObj (removeIdsMembers kvs)"
| "removeIds (JArr xs) = JArr (removeIdsElements xs)"
| "removeIds v = v"
| "removeIdsMembers [] = []"
| "removeIdsMembers ((k, v) # kvs) =
     (if k = ''id'' \<and> isString v then removeIdsMembers kvs
      else (k, removeIds v) # removeIdsMembers kvs)"
| "removeIdsElements [] = []"
| "removeIdsElements (v # vs) = removeIds v # removeIdsElements vs"

definition assignE :: "jsval \<Rightarrow> string \<Rightarrow> jsval \<Rightarrow> exn + jsval" where
  "assignE node k v = (if node = JUndefined \<or> node = JNull then Inl TypeErr else Inr (assign node k v))"

definition deleteE :: "jsval \<Rightarrow> string \<Rightarrow> exn + jsval" where
  "deleteE node k =
     (if node = JUndefined \<or> node = JNull then Inl TypeErr
      else Inr (case node of JObj kvs \<Rightarrow> JObj (filter (\<lambda>(k', v). k' \<noteq> k) kvs) | _ \<Rightarrow> node))"

definition popName :: "string \<Rightarrow> string" where
  "popName ptr = (case pathFromPointer ptr of [] \<Rightarrow> ''undefined'' | path \<Rightarrow> last path)"

text \<open>
  The three loops of the 1.2 branch, each with the recursive call as the parameter
  \<open>C\<close>: over the lineage (the composed ancestors become the members of \<open>allOf\<close>),
  over the references found in the original declaration of a property (a model with a
  lineage is composed in place, any other becomes a titled object), and over the
  properties of the resolved node (string bounds are parsed first). \<open>compose12\<close> is
  the 1.2 branch and \<open>finish\<close> the end of the function.
\<close>

fun composeLineage :: "(string \<Rightarrow> (exn + jsval) option) \<Rightarrow> string list \<Rightarrow> (exn + jsval list) option" where
  "composeLineage C [] = Some (Inr [])"
| "composeLineage C (r # rs) =
     (case C r of
        None \<Rightarrow> None
      | Some (Inl err) \<Rightarrow> Some (Inl err)
      | Some (Inr v) \<Rightarrow>
          (case composeLineage C rs of
             None \<Rightarrow> None
           | Some (Inl err) \<Rightarrow> Some (Inl err)
           | Some (Inr vs) \<Rightarrow> Some (Inr (v # vs))))"

definition parseBound :: "jsval \<Rightarrow> string \<Rightarrow> jsval" where
  "parseBound n e = (if isString (member n e) then assign n e (JNum (parseFloat (member n e))) else n)"

fun composeRefs ::
  "(string \<Rightarrow> (exn + jsval) option) \<Rightarrow> entry \<Rightarrow> jsval \<Rightarrow> (string \<times> string) list \<Rightarrow> (exn + jsval) option" where
  "composeRefs C e n [] = Some (Inr n)"
| "composeRefs C e n ((i, r) # refs) =
     (let tptr = ''#/models/'' @ r;
          base = butlast (pathFromPointer i)
      in case lookup_def e tptr of
           None \<Rightarrow> Some (Inl TypeErr)
         | Some node \<Rightarrow>
             (case lineage node of
                None \<Rightarrow> Some (Inl TypeErr)
              | Some lin \<Rightarrow>
                  if 0 < length lin
                  then (case C tptr of
                          None \<Rightarrow> None
                        | Some (Inl err) \<Rightarrow> Some (Inl err)
                        | Some (Inr composed) \<Rightarrow> composeRefs C e (tset n base composed) refs)
                  else composeRefs C e
                         (tset (tset n (base @ [''title'']) (JStr (''Composed '' @ r)))
                               (base @ [''type'']) (JStr ''object''))
                         refs))"

definition composeProperty ::
  "(string \<Rightarrow> (exn + jsval) option) \<Rightarrow> entry \<Rightarrow> jsval \<Rightarrow> string \<times> jsval \<Rightarrow> (exn + jsval) option" where
  "composeProperty C e tnode kn =
     (let (i, n) = kn;
          orig = member (member tnode ''properties'') i
      in composeRefs C e (parseBound (parseBound n ''maximum'') ''minimum'') (findRefs orig))"

fun composeProperties ::
  "(string \<Rightarrow> (exn + jsval) option) \<Rightarrow> entry \<Rightarrow> jsval \<Rightarrow> (string \<times> jsval) list
     \<Rightarrow> (exn + (string \<times> jsval) list) option" where
  "composeProperties C e tnode [] = Some (Inr [])"
| "composeProperties C e tnode ((i, n) # props) =
     (case composeProperty C e tnode (i, n) of
        None \<Rightarrow> None
      | Some (Inl err) \<Rightarrow> Some (Inl err)
      | Some (Inr n') \<Rightarrow>
          (case composeProperties C e tnode props of
             None \<Rightarrow> None
           | Some (Inl err) \<Rightarrow> Some (Inl err)
           | Some (Inr props') \<Rightarrow> Some (Inr ((i, n') # props'))))"

definition finish :: "string \<Rightarrow> jsval \<Rightarrow> exn + jsval" where
  "finish title i =
     (case assignE (removeIds i) ''title'' (JStr title) of
        Inl err \<Rightarrow> Inl err
      | Inr i1 \<Rightarrow> assignE i1 ''type'' (JStr ''object''))"

definition withProperties :: "jsval \<Rightarrow> (string \<times> jsval) list \<Rightarrow> jsval" where
  "withProperties i props = (case member i ''properties'' of JObj old \<Rightarrow> assign i ''properties'' (JObj props) | _ \<Rightarrow> i)"

definition compose12 ::
  "(string \<Rightarrow> (exn + jsval) option) \<Rightarrow> entry \<Rightarrow> defnode \<Rightarrow> jsval \<Rightarrow> jsval \<Rightarrow> (exn + jsval) option" where
  "compose12 C e c tnode i =
     (case lineage c of
        None \<Rightarrow> Some (Inl TypeErr)
      | Some lin \<Rightarrow>
          (case (if 0 < length lin
                 then (case composeLineage C lin of
                         None \<Rightarrow> None
                       | Some (Inl err) \<Rightarrow> Some (Inl err)
                       | Some (Inr composed) \<Rightarrow> Some (assignE i ''allOf'' (JArr composed)))
                 else Some (Inr i)) of
             None \<Rightarrow> None
           | Some (Inl err) \<Rightarrow> Some (Inl err)
           | Some (Inr i1) \<Rightarrow>
               (case deleteE i1 ''subTypes'' of
                  Inl err \<Rightarrow> Some (Inl err)
                | Inr i2 \<Rightarrow>
                    (case composeProperties C e tnode (members_of (member i2 ''properties'')) of
                       None \<Rightarrow> None
                     | Some (Inl err) \<Rightarrow> Some (Inl err)
                     | Some (Inr props) \<Rightarrow> Some (Inr (withProperties i2 props))))))"

fun p_compose :: "nat \<Rightarrow> entry \<Rightarrow> string \<Rightarrow> (exn + jsval) option" where
  "p_compose 0 e n = None"
| "p_compose (Suc fuel) e n =
     (let title = ''Composed '' @ (if swaggerVersion e = JStr ''1.2'' then popName n else n)
      in case lookup_def e n of
           None \<Rightarrow> Some (Inr JUndefined)
         | Some c \<Rightarrow>
             (let tnode = tget (original e) (pathFromPointer n);
                  i = tget (resolved e) (pathFromPointer n)
              in case (if swaggerVersion e = JStr ''1.2''
                       then compose12 (p_compose fuel e) e c tnode i
                       else Some (Inr i)) of
                   None \<Rightarrow> None
                 | Some (Inl err) \<Rightarrow> Some (Inl err)
                 | Some (Inr i') \<Rightarrow> Some (finish title i')))"



definition composed :: "(exn + jsval) option \<Rightarrow> jsval" where
  "composed x = (case x of Some (Inr v) \<Rightarrow> v | _ \<Rightarrow> JUndefined)"


fun declaredNames :: "jsval \<Rightarrow> string list"
  and declaredNamesMembers :: "(string \<times> jsval) list \<Rightarrow> string list"
  and declaredNamesIn :: "jsval list \<Rightarrow> string list"
where
  "declaredNames (JObj kvs) = declaredNamesMembers kvs"
| "declaredNames (JArr xs) = declaredNamesIn xs"
| "declaredNames v = []"
| "declaredNamesMembers [] = []"
| "declaredNamesMembers ((k, v) # kvs) =
     (if k = ''properties'' then map fst (members_of v)
      else if k = ''allOf'' then declaredNames v
      else [])
     @ declaredNamesMembers kvs"
| "declaredNamesIn [] = []"
| "declaredNamesIn (x # xs) = declaredNames x @ declaredNamesIn xs"

section \<open>composeSchema\<close>

text \<open>
  \<open>composeSchema(e, n, o)\<close> of a specification of version \<open>version\<close>: the checks of the
  arguments (\<open>argumentError\<close>, in the order of the code), the reading of \<open>n\<close> as a
  pointer (a model id of dialect 1.2 is prefixed with \<open>#/models/\<close>, and \<open>n.charAt\<close> on a
  value that is not a string is a type error), the validation \<open>P\<close> against the schema
  \<open>schemaOf e\<close>, and the callback \<open>s\<close> of that validation (\<open>composeSchema_s\<close>), which
  runs the semantic checks \<open>E\<close> on the entry of the document and composes the model.
  The semantic checks are a parameter: a function from an entry and the findings so far
  to the entry and the findings after the checks, if they return.
\<close>

definition argumentError :: "string \<Rightarrow> jsval \<Rightarrow> jsval \<Rightarrow> arg \<Rightarrow> exn option" where
  "argumentError version e n cb =
     (if version = ''1.2'' \<and> e = JUndefined then Some (Err ''apiDeclaration is required'')
      else if version = ''1.2'' \<and> \<not> isPlainObject e then Some (TypeError ''apiDeclaration must be an object'')
      else if version = ''1.2'' \<and> n = JUndefined then Some (Err ''modelId is required'')
      else if version = ''2.0'' \<and> e = JUndefined then Some (Err ''swaggerObject is required'')
      else if version = ''2.0'' \<and> \<not> isPlainObject e then Some (TypeError ''swaggerObject must be an object'')
      else if version = ''2.0'' \<and> n = JUndefined then Some (Err ''modelRef is required'')
      else (case cb of
              Value v \<Rightarrow> if v = JUndefined then Some (Err ''callback is required'')
                         else Some (TypeError ''callback must be a function'')
            | Callback k \<Rightarrow> None))"

definition schemaOf :: "jsval \<Rightarrow> string" where
  "schemaOf e = (if getSwaggerVersion e = JStr ''1.2'' then ''apiDeclaration.json'' else ''schema.json'')"

definition composeSchema_s ::
  "env \<Rightarrow> (entry \<Rightarrow> findings \<Rightarrow> (entry \<times> findings) option) \<Rightarrow> nat \<Rightarrow> jsval \<Rightarrow> string \<Rightarrow> nat
     \<Rightarrow> (exn option \<times> report option) \<times> world \<Rightarrow> (outcome \<times> world) option" where
  "composeSchema_s env E fuel e n k ri =
     (let ((r, i), w) = ri
      in case r of
           Some err \<Rightarrow> Some (Calls k (Some err) JUndefined, w)
         | None \<Rightarrow>
             (case l i of
                Some rep \<Rightarrow> Some (Calls k (Some (m rep)) JUndefined, w)
              | None \<Rightarrow>
                  (let (tkey, reg) = g env (registry w) e
                   in case E (the_entry reg tkey) \<lparr>errors = [], warnings = []\<rparr> of
                        None \<Rightarrow> None
                      | Some (t', i') \<Rightarrow>
                          (let w' = w\<lparr>registry := update_entry tkey (\<lambda>x. t') reg\<rparr>
                           in case lookup_def t' n of
                                None \<Rightarrow> Some (Calls k None JUndefined, w')
                              | Some node \<Rightarrow>
                                  (case l (Some \<lparr>errors = errors i', warnings = warnings i', apiDeclarations = None\<rparr>) of
                                     Some rep \<Rightarrow> Some (Calls k (Some (m rep)) JUndefined, w')
                                   | None \<Rightarrow>
                                       (case p_compose fuel t' n of
                                          None \<Rightarrow> None
                                        | Some (Inl err) \<Rightarrow> Some (Throws err, w')
                                        | Some (Inr v) \<Rightarrow> Some (Calls k None v, w')))))))"

definition composeSchema ::
  "env \<Rightarrow> (entry \<Rightarrow> findings \<Rightarrow> (entry \<times> findings) option) \<Rightarrow> nat \<Rightarrow> string \<Rightarrow> world
     \<Rightarrow> jsval \<Rightarrow> jsval \<Rightarrow> arg \<Rightarrow> (outcome \<times> world) option" where
  "composeSchema env E fuel version w e n cb =
     (case argumentError version e n cb of
        Some err \<Rightarrow> Some (Throws err, w)
      | None \<Rightarrow>
          (case n of
             JStr ref \<Rightarrow>
               if take 1 ref \<noteq> ''#'' \<and> version \<noteq> ''1.2''
               then Some (Throws (Err ''modelRef must be a JSON Pointer''), w)
               else composeSchema_s env E fuel e
                      (if take 1 ref \<noteq> ''#'' then ''#/models/'' @ ref else ref)
                      (case cb of Callback k \<Rightarrow> k | Value v \<Rightarrow> 0)
                      (P env w version (SchemaName (schemaOf e)) e)
           | _ \<Rightarrow> Some (Throws TypeErr, w)))"

text \<open>
  An API declaration of dialect 1.2 with the members its schema requires, whose two
  models are sub types of each other.
\<close>

definition cyclic_api :: jsval where
  "cyclic_api =
     JObj [(''swaggerVersion'', JStr ''1.2''),
           (''basePath'', JStr ''http://localhost/api''),
           (''apis'', JArr []),
           (''models'', JObj
              [(''A'', JObj [(''id'', JStr ''A''), (''properties'', JObj []),
                             (''subTypes'', JArr [JStr ''B'']), (''discriminator'', JStr ''kind'')]),
               (''B'', JObj [(''id'', JStr ''B''), (''properties'', JObj []),
                             (''subTypes'', JArr [JStr ''A'']), (''discriminator'', JStr ''kind'')])])]"

section \<open>Properties of the content-type gate\<close>

lemma uniq_set_acc:
  "set (foldl (\<lambda>acc x. if x \<in> set acc then acc else acc @ [x]) acc0 xs) = set acc0 \<union> set xs"
  by (induction xs arbitrary: acc0) auto

lemma set_uniq: "set (uniq xs) = set xs"
  by (simp add: uniq_def uniq_set_acc)

lemma uniq_Nil_iff: "uniq xs = [] \<longleftrightarrow> xs = []"
  using set_uniq [of xs] by (metis set_empty)

lemma distinct_uniq_acc:
  "distinct acc0 \<Longrightarrow> distinct (foldl (\<lambda>acc x. if x \<in> set acc then acc else acc @ [x]) acc0 xs)"
  by (induction xs arbitrary: acc0) auto

lemma distinct_uniq: "distinct (uniq xs)"
  by (simp add: uniq_def distinct_uniq_acc)

lemma set_union2:
  "set (union2 a b) = (case a of None \<Rightarrow> {} | Some xs \<Rightarrow> set xs) \<union> (case b of None \<Rightarrow> {} | Some ys \<Rightarrow> set ys)"
  by (auto simp: union2_def set_uniq split: option.splits)

text \<open>
  C10. When the union of the globally declared and the operation's declared consumes is
  empty, the gate passes every request, whatever its method and its Content-Type header.
\<close>

theorem validateContentType_empty_union:
  "union2 oConsumes gConsumes = [] \<Longrightarrow> validateContentType gConsumes oConsumes req = Inr ()"
  by (simp add: validateContentType_def)

theorem validateContentType_empty_union_witness:
  "union2 (Some []) None = ([] :: string list) \<and>
   validateContentType None (Some []) \<lparr>headers = Map.empty, req_method = ''POST''\<rparr> = Inr ()"
proof -
  have h: "union2 (Some []) None = ([] :: string list)"
    by (simp add: union2_def uniq_def)
  from h show ?thesis
    by (intro conjI validateContentType_empty_union)
qed

lemma set_union2_declared: "set (union2 a b) = declared a \<union> declared b"
  by (simp add: set_union2 declared_def)

lemma distinct_union2: "distinct (union2 a b)"
  by (simp add: union2_def distinct_uniq)

lemma split_first_no_sep: "sep \<notin> set (split_first sep str)"
  unfolding split_first_def
  by (metis (mono_tags, lifting) set_takeWhileD)

lemma split_first_prefix:
  "str = split_first sep str \<or> (\<exists>rest. str = split_first sep str @ sep # rest)"
proof (cases "dropWhile (\<lambda>c. c \<noteq> sep) str")
  case Nil
  then have "takeWhile (\<lambda>c. c \<noteq> sep) str = str"
    by (metis append_Nil2 takeWhile_dropWhile_id)
  then show ?thesis by (metis split_first_def)
next
  case (Cons c rest)
  then have "c = sep" using hd_dropWhile [of "\<lambda>c. c \<noteq> sep" str] by auto
  with Cons have "str = takeWhile (\<lambda>c. c \<noteq> sep) str @ sep # rest"
    by (metis takeWhile_dropWhile_id)
  then show ?thesis by (metis split_first_def)
qed

text \<open>
  C6, as the code has it. The gate raises only for POST and PUT. For those it takes the
  Content-Type header (\<open>application/octet-stream\<close> when the header is missing or empty),
  keeps the text before the first \<open>;\<close>, and throws the invalid-content-type error, whose
  message lists the union of the operation's and the global consumes, exactly when that
  union is not empty and does not contain the stripped value. Every other method passes.
  The union has no duplicates and holds exactly the declared types.
\<close>

theorem validateContentType_gate:
  "(req_method req \<notin> {''POST'', ''PUT''} \<longrightarrow> validateContentType gConsumes oConsumes req = Inr ())
   \<and> (req_method req \<in> {''POST'', ''PUT''} \<longrightarrow>
        validateContentType gConsumes oConsumes req =
          (if declared oConsumes \<union> declared gConsumes \<noteq> {}
              \<and> contentType req \<notin> declared oConsumes \<union> declared gConsumes
           then Inl (Err (''Invalid content type ('' @ contentType req @ '').  These are valid: ''
                          @ join '', '' (union2 oConsumes gConsumes)))
           else Inr ()))
   \<and> set (union2 oConsumes gConsumes) = declared oConsumes \<union> declared gConsumes
   \<and> distinct (union2 oConsumes gConsumes)
   \<and> (headers req ''content-type'' = None \<or> headers req ''content-type'' = Some []
        \<longrightarrow> contentType req = ''application/octet-stream'')
   \<and> (\<forall>h. headers req ''content-type'' = Some h \<and> h \<noteq> [] \<longrightarrow>
          CHR '';'' \<notin> set (contentType req)
          \<and> (h = contentType req \<or> (\<exists>rest. h = contentType req @ CHR '';'' # rest)))"
proof (intro conjI)
  show "req_method req \<notin> {''POST'', ''PUT''} \<longrightarrow> validateContentType gConsumes oConsumes req = Inr ()"
    by (simp add: validateContentType_def Let_def)
  have ne: "(union2 oConsumes gConsumes = []) = (declared oConsumes \<union> declared gConsumes = {})"
    using set_union2_declared [of oConsumes gConsumes] by (metis set_empty)
  show "req_method req \<in> {''POST'', ''PUT''} \<longrightarrow>
        validateContentType gConsumes oConsumes req =
          (if declared oConsumes \<union> declared gConsumes \<noteq> {}
              \<and> contentType req \<notin> declared oConsumes \<union> declared gConsumes
           then Inl (Err (''Invalid content type ('' @ contentType req @ '').  These are valid: ''
                          @ join '', '' (union2 oConsumes gConsumes)))
           else Inr ())"
    unfolding validateContentType_def Let_def length_greater_0_conv ne set_union2_declared
    by simp
  show "set (union2 oConsumes gConsumes) = declared oConsumes \<union> declared gConsumes"
    by (rule set_union2_declared)
  show "distinct (union2 oConsumes gConsumes)" by (rule distinct_union2)
  show "headers req ''content-type'' = None \<or> headers req ''content-type'' = Some []
        \<longrightarrow> contentType req = ''application/octet-stream''"
    by (auto simp: contentType_def split_first_def)
  show "\<forall>h. headers req ''content-type'' = Some h \<and> h \<noteq> [] \<longrightarrow>
          CHR '';'' \<notin> set (contentType req)
          \<and> (h = contentType req \<or> (\<exists>rest. h = contentType req @ CHR '';'' # rest))"
    using split_first_no_sep split_first_prefix by (simp add: contentType_def)
qed

theorem validateContentType_gate_witness:
  "validateContentType (Some [''application/json'']) None \<lparr>headers = Map.empty, req_method = ''GET''\<rparr> = Inr ()
   \<and> validateContentType None (Some [''application/x-www-form-urlencoded''])
        \<lparr>headers = [''content-type'' \<mapsto> ''application/x-www-form-urlencoded; charset=utf-8''],
         req_method = ''POST''\<rparr> = Inr ()
   \<and> validateContentType None (Some [''application/x-www-form-urlencoded''])
        \<lparr>headers = Map.empty, req_method = ''POST''\<rparr>
       = Inl (Err (''Invalid content type (application/octet-stream).  These are valid: ''
                   @ ''application/x-www-form-urlencoded''))
   \<and> CHR '';'' \<notin> set (contentType
        \<lparr>headers = [''content-type'' \<mapsto> ''application/x-www-form-urlencoded; charset=utf-8''],
         req_method = ''POST''\<rparr>)"
proof -
  let ?get = "\<lparr>headers = Map.empty, req_method = ''GET''\<rparr>"
  let ?post = "\<lparr>headers = Map.empty, req_method = ''POST''\<rparr>"
  let ?form = "\<lparr>headers = [''content-type'' \<mapsto> ''application/x-www-form-urlencoded; charset=utf-8''],
                req_method = ''POST''\<rparr>"
  have u: "union2 (Some [''application/x-www-form-urlencoded'']) None = [''application/x-www-form-urlencoded'']"
    by (simp add: union2_def uniq_def)
  have d: "declared (Some [''application/x-www-form-urlencoded'']) \<union> declared None
           = {''application/x-www-form-urlencoded''}"
    by (simp add: declared_def)
  have c1: "contentType ?form = ''application/x-www-form-urlencoded''"
    by (simp add: contentType_def split_first_def)
  have c2: "contentType ?post = ''application/octet-stream''"
    by (simp add: contentType_def split_first_def)
  have "validateContentType (Some [''application/json'']) None ?get = Inr ()"
    using validateContentType_gate [of ?get "Some [''application/json'']" None] by simp
  moreover have "validateContentType None (Some [''application/x-www-form-urlencoded'']) ?form = Inr ()"
    using validateContentType_gate [of ?form None "Some [''application/x-www-form-urlencoded'']"]
    unfolding d c1 by simp
  moreover have "validateContentType None (Some [''application/x-www-form-urlencoded'']) ?post
       = Inl (Err (''Invalid content type (application/octet-stream).  These are valid: ''
                   @ ''application/x-www-form-urlencoded''))"
    using validateContentType_gate [of ?post None "Some [''application/x-www-form-urlencoded'']"]
    unfolding d c2 u by simp
  moreover have "CHR '';'' \<notin> set (contentType ?form)"
    using validateContentType_gate [of ?form None None] by simp
  ultimately show ?thesis by blast
qed

text \<open>
  C6 as stated (for POST and PUT the gate throws exactly when the stripped value is not
  in the union) fails when nothing is declared: a POST without a Content-Type header
  against no declared consumes has its value \<open>application/octet-stream\<close> outside the
  (empty) union, and passes.
\<close>

theorem validateContentType_exactly_counterexample:
  "req_method \<lparr>headers = Map.empty, req_method = ''POST''\<rparr> \<in> {''POST'', ''PUT''}
   \<and> contentType \<lparr>headers = Map.empty, req_method = ''POST''\<rparr> \<notin> set (union2 None None)
   \<and> validateContentType None None \<lparr>headers = Map.empty, req_method = ''POST''\<rparr> = Inr ()"
  by (simp add: validateContentType_def union2_def uniq_def)

section \<open>Properties of the constraint validator\<close>

lemma firstFailure_Inl:
  "firstFailure rs = Inl err \<longleftrightarrow> (\<exists>k<length rs. rs ! k = Inl err \<and> (\<forall>j<k. rs ! j = Inr ()))"
proof (induction rs rule: firstFailure.induct)
  case 1
  then show ?case by simp
next
  case (2 err' rs)
  show ?case
  proof
    assume "firstFailure (Inl err' # rs) = Inl err"
    then have "(Inl err' # rs) ! 0 = Inl err \<and> (\<forall>j<0. (Inl err' # rs) ! j = Inr ())" by simp
    then show "\<exists>k<length (Inl err' # rs). (Inl err' # rs) ! k = Inl err \<and> (\<forall>j<k. (Inl err' # rs) ! j = Inr ())"
      by (intro exI [of _ 0]) simp
  next
    assume "\<exists>k<length (Inl err' # rs). (Inl err' # rs) ! k = Inl err \<and> (\<forall>j<k. (Inl err' # rs) ! j = Inr ())"
    then obtain k where k: "(Inl err' # rs) ! k = Inl err" "\<forall>j<k. (Inl err' # rs) ! j = Inr ()" by blast
    have "k = 0"
    proof (rule ccontr)
      assume "k \<noteq> 0"
      then have "(Inl err' # rs) ! 0 = Inr ()" using k(2) by blast
      then show False by simp
    qed
    with k(1) show "firstFailure (Inl err' # rs) = Inl err" by simp
  qed
next
  case (3 u rs)
  show ?case
  proof
    assume "firstFailure (Inr u # rs) = Inl err"
    then have "firstFailure rs = Inl err" by simp
    with 3 obtain k where k: "k < length rs" "rs ! k = Inl err" "\<forall>j<k. rs ! j = Inr ()" by blast
    have "\<forall>j<Suc k. (Inr u # rs) ! j = Inr ()"
      using k(3) by (auto simp: nth_Cons split: nat.splits)
    with k(1,2) show "\<exists>k<length (Inr u # rs). (Inr u # rs) ! k = Inl err \<and> (\<forall>j<k. (Inr u # rs) ! j = Inr ())"
      by (intro exI [of _ "Suc k"]) simp
  next
    assume "\<exists>k<length (Inr u # rs). (Inr u # rs) ! k = Inl err \<and> (\<forall>j<k. (Inr u # rs) ! j = Inr ())"
    then obtain k where k: "k < length (Inr u # rs)" "(Inr u # rs) ! k = Inl err"
      "\<forall>j<k. (Inr u # rs) ! j = Inr ()" by blast
    then obtain k' where k': "k = Suc k'" by (cases k) auto
    have "\<forall>j<k'. rs ! j = Inr ()"
    proof (intro allI impI)
      fix j assume "j < k'"
      then have "(Inr u # rs) ! Suc j = Inr ()" using k(3) k' by blast
      then show "rs ! j = Inr ()" by simp
    qed
    with k k' have "\<exists>k<length rs. rs ! k = Inl err \<and> (\<forall>j<k. rs ! j = Inr ())" by auto
    with 3 have "firstFailure rs = Inl err" by blast
    then show "firstFailure (Inr u # rs) = Inl err" by simp
  qed
qed

lemma checks_chain:
  "andThen (typeAndFormatOf n a)
     (andThen (validateEnum a (n_enum n))
     (andThen (validateMaximum a (n_maximum n) (n_type n) (n_exclusiveMaximum n))
     (andThen (validateMaxItems a (n_maxItems n))
     (andThen (validateMaxLength a (n_maxLength n))
     (andThen (validateMaxProperties a (n_maxProperties n))
     (andThen (validateMinimum a (n_minimum n) (n_type n) (n_exclusiveMinimum n))
     (andThen (validateMinItems a (n_minItems n))
     (andThen (validateMinLength a (n_minLength n))
     (andThen (validateMinProperties a (n_minProperties n))
     (andThen (validateMultipleOf a (n_multipleOf n))
     (andThen (validatePattern RegExp a (n_pattern n))
              (validateUniqueItems a (n_uniqueItems n)))))))))))))
   = firstFailure (map snd (orderedChecks RegExp n a))"
proof -
  have step: "\<And>x rs. firstFailure (x # rs) = andThen x (firstFailure rs)"
    by (case_tac x) (simp_all add: andThen_def)
  have last: "\<And>x :: exn + unit. andThen x (firstFailure []) = x"
    by (case_tac x) (simp_all add: andThen_def)
  show ?thesis
    unfolding orderedChecks_def list.map snd_conv step
    by (simp only: last)
qed

lemma returning_code:
  "returning a d n i e = Inl x \<Longrightarrow> code x = Some ''INVALID_TYPE''"
  by (auto simp: returning_def split: if_splits)

lemma typeSwitch_code:
  "typeSwitch e n i = Inl x \<Longrightarrow> x = TypeErr"
  by (cases e) (auto simp: typeSwitch_def isValidDate_def isValidDateTime_def Let_def split: if_splits)

lemma validateTypeAndFormat_code:
  "(validateTypeAndFormat e n i a = Inl x \<longrightarrow> x = TypeErr \<or> code x = Some ''INVALID_TYPE'')"
  "(eachIndexed es t n i = Inl x \<longrightarrow> x = TypeErr \<or> code x = Some ''INVALID_TYPE'')"
  by (induction e n i a and es t n i rule: validateTypeAndFormat_eachIndexed.induct)
    (auto split: sum.splits if_splits dest: returning_code typeSwitch_code)

lemma typeAndFormatOf_code:
  "typeAndFormatOf n a = Inl x \<Longrightarrow> x = TypeErr \<or> code x = Some ''INVALID_TYPE''"
  using validateTypeAndFormat_code(1)
  by (auto simp: typeAndFormatOf_def discard_def split: if_splits option.splits sum.splits)

lemma validateEnum_code: "validateEnum e n = Inl x \<Longrightarrow> code x = Some ''ENUM_MISMATCH''"
  by (auto simp: validateEnum_def split: option.splits if_splits)

lemma validateMaximum_code:
  "validateMaximum e n i a = Inl x \<Longrightarrow>
     code x = Some (if a = Some True then ''MAXIMUM_EXCLUSIVE'' else ''MAXIMUM'')"
  by (auto simp: validateMaximum_def Let_def split: if_splits)

lemma validateMinimum_code:
  "validateMinimum e n i a = Inl x \<Longrightarrow>
     code x = Some (if a = Some True then ''MINIMUM_EXCLUSIVE'' else ''MINIMUM'')"
  by (auto simp: validateMinimum_def Let_def split: if_splits)

lemma js_length_code: "js_length e = Inl x \<Longrightarrow> x = TypeErr"
  by (cases e) auto

lemma validateMaxItems_code:
  "validateMaxItems e n = Inl x \<Longrightarrow> x = TypeErr \<or> code x = Some ''ARRAY_LENGTH_LONG''"
  by (auto simp: validateMaxItems_def split: option.splits sum.splits if_splits dest: js_length_code)

lemma validateMaxLength_code:
  "validateMaxLength e n = Inl x \<Longrightarrow> x = TypeErr \<or> code x = Some ''MAX_LENGTH''"
  by (auto simp: validateMaxLength_def split: option.splits sum.splits if_splits dest: js_length_code)

lemma validateMinItems_code:
  "validateMinItems e n = Inl x \<Longrightarrow> x = TypeErr \<or> code x = Some ''ARRAY_LENGTH_SHORT''"
  by (auto simp: validateMinItems_def split: option.splits sum.splits if_splits dest: js_length_code)

lemma validateMinLength_code:
  "validateMinLength e n = Inl x \<Longrightarrow> x = TypeErr \<or> code x = Some ''MIN_LENGTH''"
  by (auto simp: validateMinLength_def split: option.splits sum.splits if_splits dest: js_length_code)

lemma validateMaxProperties_code:
  "validateMaxProperties e n = Inl x \<Longrightarrow> code x = Some ''MAX_PROPERTIES''"
  by (auto simp: validateMaxProperties_def Let_def split: option.splits if_splits)

lemma validateMinProperties_code:
  "validateMinProperties e n = Inl x \<Longrightarrow> code x = Some ''MIN_PROPERTIES''"
  by (auto simp: validateMinProperties_def Let_def split: option.splits if_splits)

lemma validateMultipleOf_code:
  "validateMultipleOf e n = Inl x \<Longrightarrow> code x = Some ''MULTIPLE_OF''"
  by (auto simp: validateMultipleOf_def split: if_splits)

lemma validatePattern_code:
  "validatePattern RegExp e n = Inl x \<Longrightarrow> x = TypeErr \<or> x = SyntaxErr \<or> code x = Some ''PATTERN''"
  by (auto simp: validatePattern_def split: option.splits jsval.splits if_splits)

lemma validateUniqueItems_code:
  "validateUniqueItems e n = Inl x \<Longrightarrow> x = TypeErr \<or> code x = Some ''ARRAY_UNIQUE''"
  by (auto simp: validateUniqueItems_def split: option.splits jsval.splits jsnum.splits if_splits)

lemma orderedChecks_codes:
  "(c, r) \<in> set (orderedChecks RegExp n a) \<Longrightarrow> r = Inl x \<Longrightarrow>
     x = TypeErr \<or> x = SyntaxErr \<or> code x = Some c"
  unfolding orderedChecks_def set_simps insert_iff empty_iff prod.inject
  using typeAndFormatOf_code [of n a x] validateEnum_code [of a "n_enum n" x]
    validateMaximum_code [of a "n_maximum n" "n_type n" "n_exclusiveMaximum n" x]
    validateMaxItems_code [of a "n_maxItems n" x] validateMaxLength_code [of a "n_maxLength n" x]
    validateMaxProperties_code [of a "n_maxProperties n" x]
    validateMinimum_code [of a "n_minimum n" "n_type n" "n_exclusiveMinimum n" x]
    validateMinItems_code [of a "n_minItems n" x] validateMinLength_code [of a "n_minLength n" x]
    validateMinProperties_code [of a "n_minProperties n" x]
    validateMultipleOf_code [of a "n_multipleOf n" x]
    validatePattern_code [of RegExp a "n_pattern n" x]
    validateUniqueItems_code [of a "n_uniqueItems n" x]
  by blast

text \<open>
  C1, as the code has it. \<open>validateSchemaConstraints\<close> throws at most once per call
  (its result is one exception with its path, or nothing). It first follows the
  \<open>schema\<close> members of the node. A node of type array without \<open>items\<close> then raises
  \<open>OBJECT_MISSING_REQUIRED_PROPERTY\<close>, whether a value is present or not. Otherwise an
  absent value is replaced by the node's default, and when that is absent too the call
  returns without a finding. Otherwise the checks run in the order type and format, enum,
  maximum, maxItems, maxLength, maxProperties, minimum, minItems, minLength,
  minProperties, multipleOf, pattern, uniqueItems, and the first one that throws ends the
  call; what it throws carries the path (extended by the default's key when the default
  was taken). A check throws its own code (\<open>MAXIMUM_EXCLUSIVE\<close> and \<open>MINIMUM_EXCLUSIVE\<close>
  when the exclusive flag is true) or an exception of the runtime.
\<close>

theorem validateSchemaConstraints_order:
  "unwrapSchema n0 i0 = (n, i1) \<Longrightarrow>
   (n_type n = Some ''array'' \<and> n_items n = None \<longrightarrow>
      validateSchemaConstraints RegExp e n0 i0 a0
        = Inl (Failed ''OBJECT_MISSING_REQUIRED_PROPERTY'' ''Missing required property: items'', i1))
   \<and> (\<not> (n_type n = Some ''array'' \<and> n_items n = None) \<longrightarrow>
        (a0 = JUndefined \<and> defaultOf e n = JUndefined \<longrightarrow>
           validateSchemaConstraints RegExp e n0 i0 a0 = Inr ())
      \<and> (a0 \<noteq> JUndefined \<longrightarrow>
           validateSchemaConstraints RegExp e n0 i0 a0
             = withPath i1 (firstFailure (map snd (orderedChecks RegExp n a0))))
      \<and> (a0 = JUndefined \<and> defaultOf e n \<noteq> JUndefined \<longrightarrow>
           validateSchemaConstraints RegExp e n0 i0 a0
             = withPath (i1 @ [defaultKey e])
                 (firstFailure (map snd (orderedChecks RegExp n (defaultOf e n))))))
   \<and> (\<forall>a c r x. (c, r) \<in> set (orderedChecks RegExp n a) \<and> r = Inl x \<longrightarrow>
          x = TypeErr \<or> x = SyntaxErr \<or> code x = Some c)
   \<and> (\<forall>rs x. firstFailure rs = Inl x \<longleftrightarrow>
          (\<exists>k<length rs. rs ! k = Inl x \<and> (\<forall>j<k. rs ! j = Inr ())))"
proof (intro conjI impI allI)
  assume u: "unwrapSchema n0 i0 = (n, i1)"
  {
    assume "n_type n = Some ''array'' \<and> n_items n = None"
    then show "validateSchemaConstraints RegExp e n0 i0 a0
        = Inl (Failed ''OBJECT_MISSING_REQUIRED_PROPERTY'' ''Missing required property: items'', i1)"
      using u by (simp add: validateSchemaConstraints_def validateArrayType_def)
  }
  {
    assume na: "\<not> (n_type n = Some ''array'' \<and> n_items n = None)"
    then have ok: "validateArrayType n = Inr ()" by (auto simp: validateArrayType_def)
    {
      assume "a0 = JUndefined \<and> defaultOf e n = JUndefined"
      then show "validateSchemaConstraints RegExp e n0 i0 a0 = Inr ()"
        using u ok by (simp add: validateSchemaConstraints_def)
    }
    {
      assume "a0 \<noteq> JUndefined"
      then show "validateSchemaConstraints RegExp e n0 i0 a0
             = withPath i1 (firstFailure (map snd (orderedChecks RegExp n a0)))"
        using u ok unfolding validateSchemaConstraints_def checks_chain by simp
    }
    {
      assume "a0 = JUndefined \<and> defaultOf e n \<noteq> JUndefined"
      then show "validateSchemaConstraints RegExp e n0 i0 a0
             = withPath (i1 @ [defaultKey e])
                 (firstFailure (map snd (orderedChecks RegExp n (defaultOf e n))))"
        using u ok unfolding validateSchemaConstraints_def checks_chain by simp
    }
  }
next
  fix a c r x
  assume "(c, r) \<in> set (orderedChecks RegExp n a) \<and> r = Inl x"
  then show "x = TypeErr \<or> x = SyntaxErr \<or> code x = Some c"
    using orderedChecks_codes by blast
next
  fix rs :: "(exn + unit) list" and x
  show "firstFailure rs = Inl x \<longleftrightarrow> (\<exists>k<length rs. rs ! k = Inl x \<and> (\<forall>j<k. rs ! j = Inr ()))"
    by (rule firstFailure_Inl)
qed

theorem validateSchemaConstraints_order_witness:
  "validateSchemaConstraints (\<lambda>p. None) ''1.2''
      (Node (no_constraints\<lparr>n_type := Some ''integer'', n_minimum := JStr ''1.0''\<rparr>) None)
      [''parameters'', ''0''] (JStr ''0'')
     = Inl (Failed ''MINIMUM'' ''Less than the configured minimum (1.0): 0'', [''parameters'', ''0''])
   \<and> validateSchemaConstraints (\<lambda>p. None) ''1.2''
      (Node (no_constraints\<lparr>n_type := Some ''integer'', n_minimum := JStr ''1.0''\<rparr>) None)
      [''parameters'', ''0''] JUndefined
     = Inr ()
   \<and> validateSchemaConstraints (\<lambda>p. None) ''1.2''
      (Node (no_constraints\<lparr>n_type := Some ''integer'', n_minimum := JStr ''1.0'',
                              n_defaultValue := JStr ''0''\<rparr>) None)
      [''parameters'', ''0''] JUndefined
     = Inl (Failed ''MINIMUM'' ''Less than the configured minimum (1.0): 0'',
            [''parameters'', ''0'', ''defaultValue''])
   \<and> validateSchemaConstraints (\<lambda>p. None) ''1.2''
      (Node (no_constraints\<lparr>n_type := Some ''array''\<rparr>) None) [''parameters'', ''0''] (JArr [])
     = Inl (Failed ''OBJECT_MISSING_REQUIRED_PROPERTY'' ''Missing required property: items'',
            [''parameters'', ''0''])"
proof -
  let ?R = "\<lambda>p :: string. (None :: (string \<Rightarrow> bool) option)"
  let ?c = "no_constraints\<lparr>n_type := Some ''integer'', n_minimum := JStr ''1.0''\<rparr>"
  let ?d = "no_constraints\<lparr>n_type := Some ''integer'', n_minimum := JStr ''1.0'',
                            n_defaultValue := JStr ''0''\<rparr>"
  let ?arr = "no_constraints\<lparr>n_type := Some ''array''\<rparr>"
  let ?p = "[''parameters'', ''0'']"
  have uc: "unwrapSchema (Node ?c None) ?p = (?c, ?p)" by simp
  have ud: "unwrapSchema (Node ?d None) ?p = (?d, ?p)" by simp
  have ua: "unwrapSchema (Node ?arr None) ?p = (?arr, ?p)" by simp
  have tc: "\<not> (n_type ?c = Some ''array'' \<and> n_items ?c = None)" by simp
  have td: "\<not> (n_type ?d = Some ''array'' \<and> n_items ?d = None)" by simp
  have ta: "n_type ?arr = Some ''array'' \<and> n_items ?arr = None" by (simp add: no_constraints_def)
  have dc: "defaultOf ''1.2'' ?c = JUndefined" by (simp add: defaultOf_def no_constraints_def)
  have dd: "defaultOf ''1.2'' ?d = JStr ''0''" by (simp add: defaultOf_def)
  have k: "defaultKey ''1.2'' = ''defaultValue''" by (simp add: defaultKey_def)
  have fc: "firstFailure (map snd (orderedChecks ?R ?c (JStr ''0'')))
              = Inl (Failed ''MINIMUM'' ''Less than the configured minimum (1.0): 0'')"
    by code_simp
  have fd: "firstFailure (map snd (orderedChecks ?R ?d (JStr ''0'')))
              = Inl (Failed ''MINIMUM'' ''Less than the configured minimum (1.0): 0'')"
    by code_simp
  have 1: "validateSchemaConstraints ?R ''1.2'' (Node ?c None) ?p (JStr ''0'')
             = Inl (Failed ''MINIMUM'' ''Less than the configured minimum (1.0): 0'', ?p)"
    using validateSchemaConstraints_order [OF uc, of ?R "''1.2''" "JStr ''0''"] tc
    by (simp only: fc withPath_def sum.case jsval.distinct simp_thms)
  have 2: "validateSchemaConstraints ?R ''1.2'' (Node ?c None) ?p JUndefined = Inr ()"
    using validateSchemaConstraints_order [OF uc, of ?R "''1.2''" JUndefined] tc dc
    by blast
  have 3: "validateSchemaConstraints ?R ''1.2'' (Node ?d None) ?p JUndefined
             = Inl (Failed ''MINIMUM'' ''Less than the configured minimum (1.0): 0'',
                    [''parameters'', ''0'', ''defaultValue''])"
    using validateSchemaConstraints_order [OF ud, of ?R "''1.2''" JUndefined] td
    by (simp only: dd k fd withPath_def sum.case jsval.distinct simp_thms append.simps)
  have 4: "validateSchemaConstraints ?R ''1.2'' (Node ?arr None) ?p (JArr [])
     = Inl (Failed ''OBJECT_MISSING_REQUIRED_PROPERTY'' ''Missing required property: items'', ?p)"
    using validateSchemaConstraints_order [OF ua, of ?R "''1.2''" "JArr []"] ta
    by blast
  from 1 2 3 4 show ?thesis by blast
qed

text \<open>
  C1 as stated (an absent value that is not required gives no finding) fails on a node of
  type array without \<open>items\<close>: the value is absent, the node has no default, and the call
  raises \<open>OBJECT_MISSING_REQUIRED_PROPERTY\<close>.
\<close>

theorem validateSchemaConstraints_absent_counterexample:
  "defaultOf ''2.0'' (no_constraints\<lparr>n_type := Some ''array''\<rparr>) = JUndefined
   \<and> validateSchemaConstraints (\<lambda>p. None) ''2.0''
        (Node (no_constraints\<lparr>n_type := Some ''array''\<rparr>) None) [] JUndefined
     = Inl (Failed ''OBJECT_MISSING_REQUIRED_PROPERTY'' ''Missing required property: items'', [])"
  by (simp add: validateSchemaConstraints_def validateArrayType_def no_constraints_def defaultOf_def)

section \<open>Properties of the type and format check\<close>











section \<open>Properties of resolve\<close>

text \<open>
  C4. A call of \<open>resolve\<close> with a document, a pointer and a callback throws
  \<open>callback must be a function\<close>: the callback is read from the second argument, which
  here is the pointer, so the node at the pointer is never returned.
\<close>

theorem resolve_pointer_argument:
  "resolve env version w (JObj kvs) (Value (JStr ptr)) (Callback k)
     = (Throws (TypeError ''callback must be a function''), w)"
  by (simp add: resolve_def isPlainObject_def)

lemma g_new_not_resolved:
  assumes "g env c e = (t, reg)" and "truthy (resolved (the_entry reg t))"
  shows "reg = c"
proof (cases "map_of c (hash env e)")
  case (Some found)
  with assms(1) show ?thesis by (simp add: g_def Let_def)
next
  case None
  show ?thesis
  proof (cases "find (\<lambda>(k, x). resolvedId x = Some (hash env e)) c")
    case (Some kx)
    with None assms(1) show ?thesis by (cases kx) (simp add: g_def Let_def)
  next
    case none: None
    let ?new = "\<lparr>definitions = [], original = e, resolved = JUndefined,
                  resolvedId = None, swaggerVersion = getSwaggerVersion e\<rparr>"
    from None none assms(1) have t: "t = hash env e" and reg: "reg = c @ [(hash env e, ?new)]"
      by (auto simp: g_def Let_def)
    have "map_of reg t = Some ?new" using None t reg by (simp add: map_add_Some_iff)
    then have "resolved (the_entry reg t) = JUndefined" by (simp add: the_entry_def)
    with assms(2) show ?thesis by (simp add: truthy_def)
  qed
qed

lemma resolve_hit:
  assumes "isPlainObject e" and "g env (registry w) e = (t, reg)"
    and "truthy (resolved (the_entry reg t))"
  shows "resolve env version w e (Callback k) a3 = (Calls k None (resolved (the_entry (registry w) t)), w)"
proof -
  have reg: "reg = registry w" using g_new_not_resolved [OF assms(2,3)] .
  have ne: "e \<noteq> JUndefined" using assms(1) by (auto simp: isPlainObject_def)
  show ?thesis using assms ne reg by (simp add: resolve_def)
qed

lemma g_fresh:
  assumes "map_of c (hash env e) = None"
    and "find (\<lambda>(k, x). resolvedId x = Some (hash env e)) c = None"
  shows "g env c e = (hash env e, c @ [(hash env e, new_entry e)])"
  using assms by (simp add: g_def Let_def new_entry_def)

lemma g_present:
  assumes "map_of c (hash env e) = Some x"
  shows "g env c e = (hash env e, c)"
  using assms by (simp add: g_def Let_def)

lemma map_of_update_entry:
  "map_of (update_entry k f c) k' = (if k' = k then map_option f (map_of c k') else map_of c k')"
  by (induction c) (auto simp: update_entry_def)

lemma map_of_fresh_append:
  "map_of c n = None \<Longrightarrow> map_of (c @ [(n, x)]) n = Some x"
  by (simp add: map_add_Some_iff)

lemma world_updates:
  "(w :: world)\<lparr>registry := a, trace := b\<rparr> = \<lparr>registry = a, trace = b\<rparr>"
  "(w :: world)\<lparr>trace := b, registry := a\<rparr> = \<lparr>registry = a, trace = b\<rparr>"
  by (cases w, simp)+

lemma O_fresh:
  assumes fresh: "map_of c (hash env e) = None"
    and reg: "registry w = c @ [(hash env e, new_entry e)]"
    and rs: "resolveRefs env (resolvable e) = Inr r"
  shows "O' env w e =
           (None, \<lparr>registry = update_entry (hash env e)
                                (\<lambda>x. x\<lparr>resolved := r, resolvedId := Some (hash env r)\<rparr>)
                                (c @ [(hash env e, new_entry e)]),
                   trace = trace w @ [ResolveRefs (resolvable e)]\<rparr>)"
proof -
  have p: "map_of (registry w) (hash env e) = Some (new_entry e)"
    using map_of_fresh_append [OF fresh, of "new_entry e"] reg by simp
  have gg: "g env (registry w) e = (hash env e, registry w)" by (rule g_present [OF p])
  have nt: "\<not> truthy (resolved (the_entry (registry w) (hash env e)))"
    using p by (simp add: the_entry_def new_entry_def truthy_def)
  show ?thesis
    unfolding O'_def gg Let_def prod.case
    using nt rs reg by (simp add: resolvable_def world_updates)
qed

lemma resolve_fresh:
  assumes obj: "isPlainObject e"
    and f1: "map_of (registry w) (hash env e) = None"
    and f2: "find (\<lambda>(k, x). resolvedId x = Some (hash env e)) (registry w) = None"
    and rr: "remoteReferences env e = None"
    and va: "validate env version (SchemaName (schemaFor (getSwaggerVersion e) e)) e = Inr None"
    and rs: "resolveRefs env (resolvable e) = Inr r"
  shows "snd (resolve env version w e (Callback k) a3) =
           \<lparr>registry = update_entry (hash env e)
                          (\<lambda>x. x\<lparr>resolved := r, resolvedId := Some (hash env r)\<rparr>)
                          (registry w @ [(hash env e, new_entry e)]),
            trace = trace w @ [RemoteReferences e,
                               Validate version (SchemaName (schemaFor (getSwaggerVersion e) e)) e,
                               ResolveRefs (resolvable e)]\<rparr>"
proof -
  let ?n = "hash env e"
  let ?reg = "registry w @ [(?n, new_entry e)]"
  let ?a = "schemaFor (getSwaggerVersion e) e"
  let ?w2 = "\<lparr>registry = ?reg, trace = trace w @ [RemoteReferences e, Validate version (SchemaName ?a) e]\<rparr>"
  let ?w3 = "\<lparr>registry = update_entry ?n (\<lambda>x. x\<lparr>resolved := r, resolvedId := Some (hash env r)\<rparr>) ?reg,
             trace = trace w @ [RemoteReferences e, Validate version (SchemaName ?a) e, ResolveRefs (resolvable e)]\<rparr>"
  have ne: "e \<noteq> JUndefined" using obj by (auto simp: isPlainObject_def)
  have gg: "g env (registry w) e = (?n, ?reg)" by (rule g_fresh [OF f1 f2])
  have ent: "the_entry ?reg ?n = new_entry e"
    using map_of_fresh_append [OF f1, of "new_entry e"] by (simp add: the_entry_def)
  have nt: "\<not> truthy (resolved (the_entry ?reg ?n))"
    unfolding ent by (simp add: new_entry_def truthy_def)
  have sv: "swaggerVersion (the_entry ?reg ?n) = getSwaggerVersion e"
    unfolding ent by (simp add: new_entry_def)
  have o: "O' env ?w2 e = (None, ?w3)"
    using O_fresh [of "registry w" env e ?w2 r, OF f1 _ rs] by simp
  have p: "P env (w\<lparr>registry := ?reg\<rparr>) version (SchemaName ?a) e = ((None, None), ?w3)"
    unfolding P_def Let_def using rr va o by (simp add: world_updates)
  have l0: "l None = None" by (simp add: l_def)
  show ?thesis
    unfolding resolve_def Let_def gg prod.case sv
    using ne obj nt p l0
    by (auto split: sum.splits simp: world_updates)
qed

lemma resolve_fresh_outcome:
  assumes obj: "isPlainObject e"
    and f1: "map_of (registry w) (hash env e) = None"
    and f2: "find (\<lambda>(k, x). resolvedId x = Some (hash env e)) (registry w) = None"
    and rr: "remoteReferences env e = None"
    and va: "validate env version (SchemaName (schemaFor (getSwaggerVersion e) e)) e = Inr None"
    and rs: "resolveRefs env (resolvable e) = Inr r"
  shows "fst (resolve env version w e (Callback k) a3) =
           (case getAtPointer env r (Callback k) of Inl x \<Rightarrow> Throws x | Inr v \<Rightarrow> Calls k None v)"
proof -
  let ?n = "hash env e"
  let ?reg = "registry w @ [(?n, new_entry e)]"
  let ?a = "schemaFor (getSwaggerVersion e) e"
  let ?f = "\<lambda>x. x\<lparr>resolved := r, resolvedId := Some (hash env r)\<rparr>"
  let ?w2 = "\<lparr>registry = ?reg, trace = trace w @ [RemoteReferences e, Validate version (SchemaName ?a) e]\<rparr>"
  let ?w3 = "\<lparr>registry = update_entry ?n ?f ?reg,
             trace = trace w @ [RemoteReferences e, Validate version (SchemaName ?a) e, ResolveRefs (resolvable e)]\<rparr>"
  have ne: "e \<noteq> JUndefined" using obj by (auto simp: isPlainObject_def)
  have gg: "g env (registry w) e = (?n, ?reg)" by (rule g_fresh [OF f1 f2])
  have ent: "the_entry ?reg ?n = new_entry e"
    using map_of_fresh_append [OF f1, of "new_entry e"] by (simp add: the_entry_def)
  have nt: "\<not> truthy (resolved (the_entry ?reg ?n))"
    unfolding ent by (simp add: new_entry_def truthy_def)
  have sv: "swaggerVersion (the_entry ?reg ?n) = getSwaggerVersion e"
    unfolding ent by (simp add: new_entry_def)
  have o: "O' env ?w2 e = (None, ?w3)"
    using O_fresh [of "registry w" env e ?w2 r, OF f1 _ rs] by simp
  have p: "P env (w\<lparr>registry := ?reg\<rparr>) version (SchemaName ?a) e = ((None, None), ?w3)"
    unfolding P_def Let_def using rr va o by (simp add: world_updates)
  have l0: "l None = None" by (simp add: l_def)
  have m1: "map_of (registry ?w3) ?n = Some (?f (new_entry e))"
    using map_of_fresh_append [OF f1, of "new_entry e"] by (simp add: map_of_update_entry)
  have res: "resolved (the_entry (registry ?w3) ?n) = r"
    using m1 by (simp add: the_entry_def)
  show ?thesis
    unfolding resolve_def Let_def gg prod.case sv
    using ne obj nt p l0 res
    by (auto split: sum.splits simp: world_updates)
qed

text \<open>
  C8. On a document the registry does not know, on which the fetch of remote references,
  the validation and the resolution succeed and give the tree \<open>r\<close>, the first call
  \<open>resolve(e, callback)\<close> makes these three calls and stores \<open>r\<close>, but it does not
  hand \<open>r\<close> to the callback: the code reads the pointer from the same argument as the
  callback (see C4), so the callback receives what \<open>getAtPointer\<close> makes of \<open>r\<close> and the
  callback itself. The second call on the same content returns the stored tree \<open>r\<close> and
  leaves the registry and the trace as they are: no fetch, no validation, no resolution.
\<close>

theorem resolve_first_call:
  "isPlainObject e \<Longrightarrow>
   map_of (registry w) (hash env e) = None \<Longrightarrow>
   find (\<lambda>(k, x). resolvedId x = Some (hash env e)) (registry w) = None \<Longrightarrow>
   remoteReferences env e = None \<Longrightarrow>
   validate env version (SchemaName (schemaFor (getSwaggerVersion e) e)) e = Inr None \<Longrightarrow>
   resolveRefs env (resolvable e) = Inr r \<Longrightarrow>
   truthy r \<Longrightarrow>
   fst (resolve env version w e (Callback k) (Value JUndefined))
     = (case getAtPointer env r (Callback k) of Inl x \<Rightarrow> Throws x | Inr v \<Rightarrow> Calls k None v)
   \<and> trace (snd (resolve env version w e (Callback k) (Value JUndefined)))
     = trace w @ [RemoteReferences e,
                  Validate version (SchemaName (schemaFor (getSwaggerVersion e) e)) e,
                  ResolveRefs (resolvable e)]
   \<and> resolve env version (snd (resolve env version w e (Callback k) (Value JUndefined))) e
        (Callback k') (Value JUndefined)
     = (Calls k' None r, snd (resolve env version w e (Callback k) (Value JUndefined)))"
proof -
  assume obj: "isPlainObject e"
    and f1: "map_of (registry w) (hash env e) = None"
    and f2: "find (\<lambda>(k, x). resolvedId x = Some (hash env e)) (registry w) = None"
    and rr: "remoteReferences env e = None"
    and va: "validate env version (SchemaName (schemaFor (getSwaggerVersion e) e)) e = Inr None"
    and rs: "resolveRefs env (resolvable e) = Inr r"
    and tr: "truthy r"
  let ?w1 = "snd (resolve env version w e (Callback k) (Value JUndefined))"
  let ?f = "\<lambda>x. x\<lparr>resolved := r, resolvedId := Some (hash env r)\<rparr>"
  have w1: "?w1 = \<lparr>registry = update_entry (hash env e) ?f (registry w @ [(hash env e, new_entry e)]),
            trace = trace w @ [RemoteReferences e,
                               Validate version (SchemaName (schemaFor (getSwaggerVersion e) e)) e,
                               ResolveRefs (resolvable e)]\<rparr>"
    by (rule resolve_fresh [OF obj f1 f2 rr va rs])
  have m1: "map_of (registry ?w1) (hash env e) = Some (?f (new_entry e))"
    unfolding w1 using map_of_fresh_append [OF f1, of "new_entry e"]
    by (simp add: map_of_update_entry)
  have gg: "g env (registry ?w1) e = (hash env e, registry ?w1)" by (rule g_present [OF m1])
  have res: "resolved (the_entry (registry ?w1) (hash env e)) = r"
    using m1 by (simp add: the_entry_def)
  have tr': "truthy (resolved (the_entry (registry ?w1) (hash env e)))"
    unfolding res by (rule tr)
  have second: "resolve env version ?w1 e (Callback k') (Value JUndefined) = (Calls k' None r, ?w1)"
    using resolve_hit [OF obj gg tr', of version k' "Value JUndefined"] res by simp
  have first: "fst (resolve env version w e (Callback k) (Value JUndefined))
     = (case getAtPointer env r (Callback k) of Inl x \<Rightarrow> Throws x | Inr v \<Rightarrow> Calls k None v)"
    by (rule resolve_fresh_outcome [OF obj f1 f2 rr va rs])
  have trc: "trace ?w1 = trace w @ [RemoteReferences e,
                  Validate version (SchemaName (schemaFor (getSwaggerVersion e) e)) e,
                  ResolveRefs (resolvable e)]"
    unfolding w1 by simp
  show ?thesis using first trc second by (intro conjI)
qed

text \<open>
  With collaborators that accept the small document, whose \<open>getAtPointer\<close> finds nothing
  at a function, the first call passes \<open>undefined\<close> to its callback and the second the
  document.
\<close>

theorem resolve_first_call_witness:
  "fst (resolve accepting_env ''2.0'' empty_world small_doc (Callback 0) (Value JUndefined))
     = Calls 0 None JUndefined
   \<and> resolve accepting_env ''2.0''
      (snd (resolve accepting_env ''2.0'' empty_world small_doc (Callback 0) (Value JUndefined)))
      small_doc (Callback 1) (Value JUndefined)
     = (Calls 1 None small_doc,
        snd (resolve accepting_env ''2.0'' empty_world small_doc (Callback 0) (Value JUndefined)))"
proof -
  have obj: "isPlainObject small_doc" by (simp add: small_doc_def isPlainObject_def)
  have sv: "getSwaggerVersion small_doc = JStr ''2.0''"
    by (simp add: getSwaggerVersion_def small_doc_def isPlainObject_def member_def truthy_def)
  have rv: "resolvable small_doc = small_doc" unfolding resolvable_def sv by simp
  have f1: "map_of (registry empty_world) (hash accepting_env small_doc) = None"
    by (simp add: empty_world_def)
  have f2: "find (\<lambda>(k, x). resolvedId x = Some (hash accepting_env small_doc)) (registry empty_world) = None"
    by (simp add: empty_world_def)
  have rr: "remoteReferences accepting_env small_doc = None" by (simp add: accepting_env_def)
  have va: "validate accepting_env ''2.0'' (SchemaName (schemaFor (getSwaggerVersion small_doc) small_doc)) small_doc = Inr None"
    by (simp add: accepting_env_def)
  have rs: "resolveRefs accepting_env (resolvable small_doc) = Inr small_doc"
    unfolding rv by (simp add: accepting_env_def)
  have tr: "truthy small_doc" by (simp add: truthy_def small_doc_def)
  have ga: "getAtPointer accepting_env small_doc (Callback 0) = Inr JUndefined"
    by (simp add: accepting_env_def)
  show ?thesis
    using resolve_first_call [OF obj f1 f2 rr va rs tr, of 0 1] ga by simp
qed

section \<open>Properties of the lineage computation\<close>

lemma lookup_update_def:
  "lookup_def (update_def u upd e) p
     = (if p = u then map_option upd (lookup_def e p) else lookup_def e p)"
proof -
  have "map_of (map (\<lambda>(k, x). if k = u then (k, upd x) else (k, x)) xs) p
          = (if p = u then map_option upd (map_of xs p) else map_of xs p)" for xs
    by (induction xs) auto
  then show ?thesis by (simp add: lookup_def_def update_def_def)
qed

lemma lineageStep_None: "lineageStep fuel None u = None"
  by (simp add: lineageStep_def)

lemma foldl_lineageStep_None: "foldl (lineageStep fuel) None us = None"
  by (induction us) (simp_all add: lineageStep_None)

lemma lineageStep_entry:
  assumes "lineageStep fuel (Some (e, n)) u = Some (e', n')"
  shows "e' = e \<or> (\<exists>h cyc. e' = update_def u (\<lambda>x. x\<lparr>lineage := Some h, cyclical := cyc\<rparr>) e)"
  using assms
  by (auto simp: lineageStep_def Let_def split: option.splits if_splits)

lemma walk_into_cycle:
  assumes pa: "map_option parents (lookup_def e ''#/models/A'') = Some (Some [''#/models/B''])"
    and pb: "map_option parents (lookup_def e ''#/models/B'') = Some (Some [''#/models/A''])"
  shows "E_walk fuel e ''#/models/C'' (Some ''#/models/A'') acc = None
         \<and> E_walk fuel e ''#/models/C'' (Some ''#/models/B'') acc = None"
proof (induction fuel arbitrary: acc)
  case 0
  show ?case by simp
next
  case (Suc fuel)
  obtain na where na: "lookup_def e ''#/models/A'' = Some na" "parents na = Some [''#/models/B'']"
    using pa by auto
  obtain nb where nb: "lookup_def e ''#/models/B'' = Some nb" "parents nb = Some [''#/models/A'']"
    using pb by auto
  have "E_walk (Suc fuel) e ''#/models/C'' (Some ''#/models/A'') acc = None"
    using na Suc.IH [of "acc @ [''#/models/B'']"] by simp
  moreover have "E_walk (Suc fuel) e ''#/models/C'' (Some ''#/models/B'') acc = None"
    using nb Suc.IH [of "acc @ [''#/models/A'']"] by simp
  ultimately show ?case by blast
qed

lemma walk_from_C:
  assumes pa: "map_option parents (lookup_def e ''#/models/A'') = Some (Some [''#/models/B''])"
    and pb: "map_option parents (lookup_def e ''#/models/B'') = Some (Some [''#/models/A''])"
    and pc: "map_option parents (lookup_def e ''#/models/C'') = Some (Some [''#/models/A''])"
  shows "E_walk fuel e ''#/models/C'' None [] = None"
proof (cases fuel)
  case 0
  then show ?thesis by simp
next
  case (Suc k)
  obtain nc where nc: "lookup_def e ''#/models/C'' = Some nc" "parents nc = Some [''#/models/A'']"
    using pc by auto
  show ?thesis
    using Suc nc walk_into_cycle [OF pa pb, of k "[''#/models/A'']"] by simp
qed

lemma lineageStep_C:
  assumes pa: "map_option parents (lookup_def e ''#/models/A'') = Some (Some [''#/models/B''])"
    and pb: "map_option parents (lookup_def e ''#/models/B'') = Some (Some [''#/models/A''])"
    and pc: "map_option parents (lookup_def e ''#/models/C'') = Some (Some [''#/models/A''])"
    and lc: "map_option lineage (lookup_def e ''#/models/C'') = Some None"
  shows "lineageStep fuel (Some (e, n)) ''#/models/C'' = None"
proof -
  obtain nc where nc: "lookup_def e ''#/models/C'' = Some nc" "lineage nc = None"
    using lc by auto
  have mp: "isModelPath (pathFromPointer ''#/models/C'')" by code_simp
  show ?thesis
    using nc mp walk_from_C [OF pa pb pc, of fuel]
    by (simp add: lineageStep_def Let_def)
qed

lemma lineageStep_keeps_parents:
  assumes "lineageStep fuel (Some (e, n)) u = Some (e', n')"
  shows "map_option parents (lookup_def e' p) = map_option parents (lookup_def e p)"
proof -
  from lineageStep_entry [OF assms]
  consider "e' = e" | h cyc where "e' = update_def u (\<lambda>x. x\<lparr>lineage := Some h, cyclical := cyc\<rparr>) e"
    by blast
  then show ?thesis
  proof cases
    case 1
    then show ?thesis by simp
  next
    case 2
    then show ?thesis
      by (cases "lookup_def e p") (auto simp: lookup_update_def)
  qed
qed

lemma lineageStep_keeps_lineage:
  assumes "lineageStep fuel (Some (e, n)) u = Some (e', n')" and "p \<noteq> u"
  shows "lookup_def e' p = lookup_def e p"
proof -
  from lineageStep_entry [OF assms(1)]
  consider "e' = e" | h cyc where "e' = update_def u (\<lambda>x. x\<lparr>lineage := Some h, cyclical := cyc\<rparr>) e"
    by blast
  then show ?thesis
    using assms(2) by cases (simp_all add: lookup_update_def)
qed

text \<open>
  C3. On the document \<open>tail_doc\<close> the lineage computation does not terminate: the walk
  from C enters the cycle of A and B and never meets C again, so no amount of fuel
  lets \<open>E_inheritance\<close> return.
\<close>

theorem E_inheritance_diverges:
  "E_inheritance fuel (entry_of tail_doc) no_findings = None"
proof -
  let ?A = "''#/models/A''" and ?B = "''#/models/B''" and ?C = "''#/models/C''"
  obtain e0 n0 where st0: "E_models (entry_of tail_doc, no_findings) = (e0, n0)"
    by (cases "E_models (entry_of tail_doc, no_findings)")
  have keys: "map fst (definitions (fst (E_models (entry_of tail_doc, no_findings)))) = [?A, ?B, ?C]"
    by code_simp
  have pa: "map_option parents (lookup_def (fst (E_models (entry_of tail_doc, no_findings))) ?A) = Some (Some [?B])"
    by code_simp
  have pb: "map_option parents (lookup_def (fst (E_models (entry_of tail_doc, no_findings))) ?B) = Some (Some [?A])"
    by code_simp
  have pc: "map_option parents (lookup_def (fst (E_models (entry_of tail_doc, no_findings))) ?C) = Some (Some [?A])"
    by code_simp
  have lc: "map_option lineage (lookup_def (fst (E_models (entry_of tail_doc, no_findings))) ?C) = Some None"
    by code_simp
  note inv0 = pa pb pc lc
  have unfold: "E_inheritance fuel (entry_of tail_doc) no_findings
      = lineageStep fuel (lineageStep fuel (lineageStep fuel (Some (e0, n0)) ?A) ?B) ?C"
    using keys by (simp add: E_inheritance_def Let_def st0)
  show ?thesis
  proof (cases "lineageStep fuel (Some (e0, n0)) ?A")
    case None
    then show ?thesis unfolding unfold by (simp add: lineageStep_None)
  next
    case (Some s1)
    obtain e1 n1 where s1: "s1 = (e1, n1)" by (cases s1)
    note step1 = Some [unfolded s1]
    have inv1:
      "map_option parents (lookup_def e1 ?A) = Some (Some [?B])"
      "map_option parents (lookup_def e1 ?B) = Some (Some [?A])"
      "map_option parents (lookup_def e1 ?C) = Some (Some [?A])"
      "map_option lineage (lookup_def e1 ?C) = Some None"
      using inv0 lineageStep_keeps_parents [OF step1] lineageStep_keeps_lineage [OF step1, of ?C]
      by (simp_all add: st0)
    show ?thesis
    proof (cases "lineageStep fuel (Some (e1, n1)) ?B")
      case None
      then show ?thesis unfolding unfold step1 by (simp add: lineageStep_None)
    next
      case (Some s2)
      obtain e2 n2 where s2: "s2 = (e2, n2)" by (cases s2)
      note step2 = Some [unfolded s2]
      have inv2:
        "map_option parents (lookup_def e2 ?A) = Some (Some [?B])"
        "map_option parents (lookup_def e2 ?B) = Some (Some [?A])"
        "map_option parents (lookup_def e2 ?C) = Some (Some [?A])"
        "map_option lineage (lookup_def e2 ?C) = Some None"
        using inv1 lineageStep_keeps_parents [OF step2] lineageStep_keeps_lineage [OF step2, of ?C]
        by simp_all
      show ?thesis
        unfolding unfold step1 step2
        by (rule lineageStep_C [OF inv2])
    qed
  qed
qed

section \<open>Properties of model composition\<close>

























section \<open>Properties of composeSchema\<close>

lemma l_findings:
  "l (Some \<lparr>errors = es, warnings = ws, apiDeclarations = None\<rparr>)
     = (if es \<noteq> [] \<or> ws \<noteq> [] then Some \<lparr>errors = es, warnings = ws, apiDeclarations = None\<rparr> else None)"
  by (auto simp: l_def)

lemma composeSchema_outcomes:
  "argumentError version e (JStr ref) (Callback k) = None \<Longrightarrow>
   take 1 ref = ''#'' \<or> version = ''1.2'' \<Longrightarrow>
   n = (if take 1 ref \<noteq> ''#'' then ''#/models/'' @ ref else ref) \<Longrightarrow>
   P env w version (SchemaName (schemaOf e)) e = ((r, i), w1) \<Longrightarrow>
   g env (registry w1) e = (tkey, reg) \<Longrightarrow>
   (\<forall>err. r = Some err \<longrightarrow>
      composeSchema env E fuel version w e (JStr ref) (Callback k)
        = Some (Calls k (Some err) JUndefined, w1))
   \<and> (r = None \<longrightarrow>
        (\<forall>rep. l i = Some rep \<longrightarrow>
           composeSchema env E fuel version w e (JStr ref) (Callback k)
             = Some (Calls k (Some (Invalid ''The Swagger document is invalid and model composition is not possible''
                                      (errors rep) (warnings rep))) JUndefined, w1))
      \<and> (l i = None \<longrightarrow>
           (E (the_entry reg tkey) no_findings = None \<longrightarrow>
              composeSchema env E fuel version w e (JStr ref) (Callback k) = None)
         \<and> (\<forall>t' i'. E (the_entry reg tkey) no_findings = Some (t', i') \<longrightarrow>
              (lookup_def t' n = None \<longrightarrow>
                 composeSchema env E fuel version w e (JStr ref) (Callback k)
                   = Some (Calls k None JUndefined, w1\<lparr>registry := update_entry tkey (\<lambda>x. t') reg\<rparr>))
            \<and> (lookup_def t' n \<noteq> None \<and> (errors i' \<noteq> [] \<or> warnings i' \<noteq> []) \<longrightarrow>
                 composeSchema env E fuel version w e (JStr ref) (Callback k)
                   = Some (Calls k (Some (Invalid ''The Swagger document is invalid and model composition is not possible''
                                            (errors i') (warnings i'))) JUndefined,
                           w1\<lparr>registry := update_entry tkey (\<lambda>x. t') reg\<rparr>))
            \<and> (lookup_def t' n \<noteq> None \<and> errors i' = [] \<and> warnings i' = [] \<longrightarrow>
                 composeSchema env E fuel version w e (JStr ref) (Callback k)
                   = (case p_compose fuel t' n of
                        None \<Rightarrow> None
                      | Some (Inl x) \<Rightarrow> Some (Throws x, w1\<lparr>registry := update_entry tkey (\<lambda>x. t') reg\<rparr>)
                      | Some (Inr v) \<Rightarrow> Some (Calls k None v, w1\<lparr>registry := update_entry tkey (\<lambda>x. t') reg\<rparr>))))))"
proof -
  assume a: "argumentError version e (JStr ref) (Callback k) = None"
    and ptr: "take 1 ref = ''#'' \<or> version = ''1.2''"
    and n: "n = (if take 1 ref \<noteq> ''#'' then ''#/models/'' @ ref else ref)"
    and p: "P env w version (SchemaName (schemaOf e)) e = ((r, i), w1)"
    and gg: "g env (registry w1) e = (tkey, reg)"
  have cs: "composeSchema env E fuel version w e (JStr ref) (Callback k)
              = composeSchema_s env E fuel e n k ((r, i), w1)"
    using a ptr n p by (auto simp: composeSchema_def)
  have nf: "no_findings = \<lparr>errors = [], warnings = []\<rparr>" by (simp add: no_findings_def)
  show ?thesis
    unfolding cs composeSchema_s_def Let_def prod.case gg nf [symmetric]
    by (auto simp: m_def l_findings split: option.splits)
qed

text \<open>
  C7, as the code has it. With arguments that pass the checks, \<open>composeSchema\<close> gives its
  callback: the error of the validation step, if there is one; otherwise, when the
  structural validation has findings, the aggregate error that carries the report's
  errors and warnings; otherwise, after the semantic checks, nothing at all (no schema
  and no error) when the reference is not among the tracked definitions, whatever the
  semantic checks found; otherwise the aggregate error with the errors and warnings of
  the semantic checks when there is any; otherwise the composed schema. The same
  aggregate error is what \<open>resolve\<close> gives its callback when the structural validation
  of its document has findings.
\<close>

theorem composeSchema_escalation:
  "(argumentError version e (JStr ref) (Callback k) = None
      \<and> (take 1 ref = ''#'' \<or> version = ''1.2'')
      \<and> n = (if take 1 ref \<noteq> ''#'' then ''#/models/'' @ ref else ref)
      \<and> P env w version (SchemaName (schemaOf e)) e = ((r, i), w1)
      \<and> g env (registry w1) e = (tkey, reg) \<longrightarrow>
    (\<forall>err. r = Some err \<longrightarrow>
       composeSchema env E fuel version w e (JStr ref) (Callback k)
         = Some (Calls k (Some err) JUndefined, w1))
    \<and> (r = None \<longrightarrow>
         (\<forall>rep. l i = Some rep \<longrightarrow>
            composeSchema env E fuel version w e (JStr ref) (Callback k)
              = Some (Calls k (Some (Invalid ''The Swagger document is invalid and model composition is not possible''
                                       (errors rep) (warnings rep))) JUndefined, w1))
       \<and> (l i = None \<longrightarrow>
            (E (the_entry reg tkey) no_findings = None \<longrightarrow>
               composeSchema env E fuel version w e (JStr ref) (Callback k) = None)
          \<and> (\<forall>t' i'. E (the_entry reg tkey) no_findings = Some (t', i') \<longrightarrow>
               (lookup_def t' n = None \<longrightarrow>
                  composeSchema env E fuel version w e (JStr ref) (Callback k)
                    = Some (Calls k None JUndefined, w1\<lparr>registry := update_entry tkey (\<lambda>x. t') reg\<rparr>))
             \<and> (lookup_def t' n \<noteq> None \<and> (errors i' \<noteq> [] \<or> warnings i' \<noteq> []) \<longrightarrow>
                  composeSchema env E fuel version w e (JStr ref) (Callback k)
                    = Some (Calls k (Some (Invalid ''The Swagger document is invalid and model composition is not possible''
                                             (errors i') (warnings i'))) JUndefined,
                            w1\<lparr>registry := update_entry tkey (\<lambda>x. t') reg\<rparr>))
             \<and> (lookup_def t' n \<noteq> None \<and> errors i' = [] \<and> warnings i' = [] \<longrightarrow>
                  composeSchema env E fuel version w e (JStr ref) (Callback k)
                    = (case p_compose fuel t' n of
                         None \<Rightarrow> None
                       | Some (Inl x) \<Rightarrow> Some (Throws x, w1\<lparr>registry := update_entry tkey (\<lambda>x. t') reg\<rparr>)
                       | Some (Inr v) \<Rightarrow> Some (Calls k None v, w1\<lparr>registry := update_entry tkey (\<lambda>x. t') reg\<rparr>)))))))
   \<and> (isPlainObject e \<and> g env (registry w) e = (tkey', reg')
        \<and> \<not> truthy (resolved (the_entry reg' tkey'))
        \<and> P env (w\<lparr>registry := reg'\<rparr>) version
              (SchemaName (schemaFor (swaggerVersion (the_entry reg' tkey')) e)) e = ((None, i2), w2)
        \<and> l i2 = Some rep2 \<longrightarrow>
       resolve env version w e (Callback k) a3
         = (Calls k (Some (Invalid ''The Swagger document is invalid and model composition is not possible''
                             (errors rep2) (warnings rep2))) JUndefined, w2))"
proof (rule conjI; rule impI)
  assume h: "argumentError version e (JStr ref) (Callback k) = None
      \<and> (take 1 ref = ''#'' \<or> version = ''1.2'')
      \<and> n = (if take 1 ref \<noteq> ''#'' then ''#/models/'' @ ref else ref)
      \<and> P env w version (SchemaName (schemaOf e)) e = ((r, i), w1)
      \<and> g env (registry w1) e = (tkey, reg)"
  show "(\<forall>err. r = Some err \<longrightarrow>
       composeSchema env E fuel version w e (JStr ref) (Callback k)
         = Some (Calls k (Some err) JUndefined, w1))
    \<and> (r = None \<longrightarrow>
         (\<forall>rep. l i = Some rep \<longrightarrow>
            composeSchema env E fuel version w e (JStr ref) (Callback k)
              = Some (Calls k (Some (Invalid ''The Swagger document is invalid and model composition is not possible''
                                       (errors rep) (warnings rep))) JUndefined, w1))
       \<and> (l i = None \<longrightarrow>
            (E (the_entry reg tkey) no_findings = None \<longrightarrow>
               composeSchema env E fuel version w e (JStr ref) (Callback k) = None)
          \<and> (\<forall>t' i'. E (the_entry reg tkey) no_findings = Some (t', i') \<longrightarrow>
               (lookup_def t' n = None \<longrightarrow>
                  composeSchema env E fuel version w e (JStr ref) (Callback k)
                    = Some (Calls k None JUndefined, w1\<lparr>registry := update_entry tkey (\<lambda>x. t') reg\<rparr>))
             \<and> (lookup_def t' n \<noteq> None \<and> (errors i' \<noteq> [] \<or> warnings i' \<noteq> []) \<longrightarrow>
                  composeSchema env E fuel version w e (JStr ref) (Callback k)
                    = Some (Calls k (Some (Invalid ''The Swagger document is invalid and model composition is not possible''
                                             (errors i') (warnings i'))) JUndefined,
                            w1\<lparr>registry := update_entry tkey (\<lambda>x. t') reg\<rparr>))
             \<and> (lookup_def t' n \<noteq> None \<and> errors i' = [] \<and> warnings i' = [] \<longrightarrow>
                  composeSchema env E fuel version w e (JStr ref) (Callback k)
                    = (case p_compose fuel t' n of
                         None \<Rightarrow> None
                       | Some (Inl x) \<Rightarrow> Some (Throws x, w1\<lparr>registry := update_entry tkey (\<lambda>x. t') reg\<rparr>)
                       | Some (Inr v) \<Rightarrow> Some (Calls k None v, w1\<lparr>registry := update_entry tkey (\<lambda>x. t') reg\<rparr>))))))"
    using h by (intro composeSchema_outcomes) simp_all
next
  assume h: "isPlainObject e \<and> g env (registry w) e = (tkey', reg')
        \<and> \<not> truthy (resolved (the_entry reg' tkey'))
        \<and> P env (w\<lparr>registry := reg'\<rparr>) version
              (SchemaName (schemaFor (swaggerVersion (the_entry reg' tkey')) e)) e = ((None, i2), w2)
        \<and> l i2 = Some rep2"
  then have ne: "e \<noteq> JUndefined" by (auto simp: isPlainObject_def)
  show "resolve env version w e (Callback k) a3
         = (Calls k (Some (Invalid ''The Swagger document is invalid and model composition is not possible''
                             (errors rep2) (warnings rep2))) JUndefined, w2)"
    using h ne by (simp add: resolve_def m_def)
qed

text \<open>
  On the declaration with the cyclic models the composition of model \<open>A\<close> fails with the
  two findings of the cycle, and \<open>resolve\<close> on a document the validator rejects fails
  with the validator's finding.
\<close>

theorem composeSchema_escalation_witness:
  "map_option fst (composeSchema accepting_env (E_inheritance 10) 5 ''1.2'' empty_world cyclic_api
                     (JStr ''A'') (Callback 0))
     = Some (Calls 0 (Some (Invalid ''The Swagger document is invalid and model composition is not possible''
          [Finding ''CYCLICAL_MODEL_INHERITANCE'' ''Model has a circular inheritance: A -> B -> A''
             [''models'', ''A'', ''subTypes''],
           Finding ''CYCLICAL_MODEL_INHERITANCE'' ''Model has a circular inheritance: B -> A -> B''
             [''models'', ''B'', ''subTypes'']] [])) JUndefined)
   \<and> fst (resolve rejecting_env ''2.0'' empty_world small_doc (Callback 0) (Value JUndefined))
     = Calls 0 (Some (Invalid ''The Swagger document is invalid and model composition is not possible''
          [Finding ''OBJECT_MISSING_REQUIRED_PROPERTY'' ''Missing required property: info'' []] [])) JUndefined"
proof -
  define pr where "pr = P accepting_env empty_world ''1.2'' (SchemaName (schemaOf cyclic_api)) cyclic_api"
  define gr where "gr = g accepting_env (registry (snd pr)) cyclic_api"
  define er where "er = E_inheritance 10 (the_entry (snd gr) (fst gr)) no_findings"
  let ?es = "[Finding ''CYCLICAL_MODEL_INHERITANCE'' ''Model has a circular inheritance: A -> B -> A''
             [''models'', ''A'', ''subTypes''],
           Finding ''CYCLICAL_MODEL_INHERITANCE'' ''Model has a circular inheritance: B -> A -> B''
             [''models'', ''B'', ''subTypes'']]"
  have h1: "argumentError ''1.2'' cyclic_api (JStr ''A'') (Callback 0) = None"
    by (simp add: argumentError_def cyclic_api_def isPlainObject_def)
  have h2: "take 1 ''A'' = ''#'' \<or> ''1.2'' = ''1.2''" by simp
  have h3: "''#/models/A'' = (if take 1 ''A'' \<noteq> ''#'' then ''#/models/'' @ ''A'' else ''A'')" by simp
  have h4: "P accepting_env empty_world ''1.2'' (SchemaName (schemaOf cyclic_api)) cyclic_api
            = ((fst (fst pr), snd (fst pr)), snd pr)"
    unfolding pr_def by (simp only: prod.collapse)
  have h5: "g accepting_env (registry (snd pr)) cyclic_api = (fst gr, snd gr)"
    unfolding gr_def by (simp only: prod.collapse)
  note h = conjI [OF h1 conjI [OF h2 conjI [OF h3 conjI [OF h4 h5]]]]
  have r: "fst (fst pr) = None" unfolding pr_def by code_simp
  have li: "l (snd (fst pr)) = None" unfolding pr_def by code_simp
  have ev: "case er of None \<Rightarrow> False
            | Some (t, i) \<Rightarrow> lookup_def t ''#/models/A'' \<noteq> None \<and> errors i = ?es \<and> warnings i = []"
    unfolding er_def gr_def pr_def by code_simp
  then obtain t0 i0 where er: "er = Some (t0, i0)"
    and ld: "lookup_def t0 ''#/models/A'' \<noteq> None" and es: "errors i0 = ?es" and ws: "warnings i0 = []"
    by (cases er) auto
  have e: "E_inheritance 10 (the_entry (snd gr) (fst gr)) no_findings = Some (t0, i0)"
    using er by (simp only: er_def)
  have prem: "lookup_def t0 ''#/models/A'' \<noteq> None \<and> (errors i0 \<noteq> [] \<or> warnings i0 \<noteq> [])"
    using ld es by simp
  note th = composeSchema_escalation [where version = "''1.2''" and e = cyclic_api and ref = "''A''"
        and k = 0 and n = "''#/models/A''" and env = accepting_env and w = empty_world
        and r = "fst (fst pr)" and i = "snd (fst pr)" and ?w1.0 = "snd pr"
        and tkey = "fst gr" and reg = "snd gr" and E = "E_inheritance 10" and fuel = 5]
  note s1 = th [THEN conjunct1, THEN mp, OF h]
  note s2 = s1 [THEN conjunct2, THEN mp, OF r]
  note s3 = s2 [THEN conjunct2, THEN mp, OF li]
  note s4 = s3 [THEN conjunct2, THEN spec, THEN spec, THEN mp, OF e]
  note s5 = s4 [THEN conjunct2, THEN conjunct1, THEN mp, OF prem]
  have c: "map_option fst (composeSchema accepting_env (E_inheritance 10) 5 ''1.2'' empty_world cyclic_api
                     (JStr ''A'') (Callback 0))
     = Some (Calls 0 (Some (Invalid ''The Swagger document is invalid and model composition is not possible''
          ?es [])) JUndefined)"
    unfolding s5 es ws by simp
  define g2 where "g2 = g rejecting_env (registry empty_world) small_doc"
  define p2 where "p2 = P rejecting_env (empty_world\<lparr>registry := snd g2\<rparr>) ''2.0''
              (SchemaName (schemaFor (swaggerVersion (the_entry (snd g2) (fst g2))) small_doc)) small_doc"
  let ?rep = "\<lparr>errors = [Finding ''OBJECT_MISSING_REQUIRED_PROPERTY'' ''Missing required property: info'' []],
                 warnings = [], apiDeclarations = None\<rparr>"
  have k1: "isPlainObject small_doc" by (simp add: small_doc_def isPlainObject_def)
  have k2: "g rejecting_env (registry empty_world) small_doc = (fst g2, snd g2)"
    unfolding g2_def by (simp only: prod.collapse)
  have k3: "\<not> truthy (resolved (the_entry (snd g2) (fst g2)))" unfolding g2_def by code_simp
  have f2: "fst (fst p2) = None" unfolding p2_def g2_def by code_simp
  have "p2 = ((fst (fst p2), snd (fst p2)), snd p2)" by (simp only: prod.collapse)
  then have "p2 = ((None, snd (fst p2)), snd p2)" by (simp only: f2)
  then have k4: "P rejecting_env (empty_world\<lparr>registry := snd g2\<rparr>) ''2.0''
              (SchemaName (schemaFor (swaggerVersion (the_entry (snd g2) (fst g2))) small_doc)) small_doc
              = ((None, snd (fst p2)), snd p2)"
    by (simp only: p2_def [symmetric])
  have k5: "l (snd (fst p2)) = Some ?rep" unfolding p2_def g2_def by code_simp
  note hh = conjI [OF k1 conjI [OF k2 conjI [OF k3 conjI [OF k4 k5]]]]
  note th2 = composeSchema_escalation [where e = small_doc and env = rejecting_env and w = empty_world
        and tkey' = "fst g2" and reg' = "snd g2" and version = "''2.0''" and ?i2.0 = "snd (fst p2)"
        and ?w2.0 = "snd p2" and k = 0 and ?a3.0 = "Value JUndefined" and ?rep2.0 = ?rep]
  note t1 = th2 [THEN conjunct2, THEN mp, OF hh]
  have d: "fst (resolve rejecting_env ''2.0'' empty_world small_doc (Callback 0) (Value JUndefined))
     = Calls 0 (Some (Invalid ''The Swagger document is invalid and model composition is not possible''
          [Finding ''OBJECT_MISSING_REQUIRED_PROPERTY'' ''Missing required property: info'' []] [])) JUndefined"
    unfolding t1 by simp
  show ?thesis using c d by (rule conjI)
qed

text \<open>
  C7 as stated fails twice. The declaration with the cyclic models does not validate
  (the semantic checks report two errors), and yet \<open>composeSchema\<close> with a model id the
  declaration does not have gives neither an error nor a schema: the test for the
  definition comes before the test for findings. And the aggregate error is not raised
  by \<open>composeSchema\<close> and \<open>validateModel\<close> alone: \<open>resolve\<close> raises it too.
\<close>

theorem composeSchema_missing_model_counterexample:
  "map_option (errors \<circ> snd) (E_inheritance 10 (entry_of cyclic_api) no_findings)
     = Some [Finding ''CYCLICAL_MODEL_INHERITANCE'' ''Model has a circular inheritance: A -> B -> A''
               [''models'', ''A'', ''subTypes''],
             Finding ''CYCLICAL_MODEL_INHERITANCE'' ''Model has a circular inheritance: B -> A -> B''
               [''models'', ''B'', ''subTypes'']]
   \<and> map_option fst (composeSchema accepting_env (E_inheritance 10) 5 ''1.2'' empty_world cyclic_api
                       (JStr ''Missing'') (Callback 0))
     = Some (Calls 0 None JUndefined)
   \<and> fst (resolve rejecting_env ''2.0'' empty_world small_doc (Callback 0) (Value JUndefined))
     = Calls 0 (Some (Invalid ''The Swagger document is invalid and model composition is not possible''
          [Finding ''OBJECT_MISSING_REQUIRED_PROPERTY'' ''Missing required property: info'' []] [])) JUndefined"
  by code_simp

end
